theory Spec2Isabelle
  imports Complex_Main "HOL-Library.Char_ord" "HOL-Library.Sublist" "HOL-Library.Multiset"
begin

section \<open>JavaScript strings\<close>

text \<open>
  A JavaScript string is read as a \<^typ>\<open>string\<close>: every \<^typ>\<open>char\<close> stands for the
  UTF-16 code unit of the same value, so the development covers the strings whose code
  units are below 256 (ASCII and Latin-1). The character classes below are the
  restrictions of the ECMAScript ones to that range.
\<close>

definition isDigit :: "char \<Rightarrow> bool" where
  \<comment> \<open>the regular expression class \<open>\d\<close>\<close>
  "isDigit c \<longleftrightarrow> CHR ''0'' \<le> c \<and> c \<le> CHR ''9''"

definition isUpper :: "char \<Rightarrow> bool" where
  \<comment> \<open>the regular expression class \<open>[A-Z]\<close>\<close>
  "isUpper c \<longleftrightarrow> CHR ''A'' \<le> c \<and> c \<le> CHR ''Z''"

definition isLower :: "char \<Rightarrow> bool" where
  "isLower c \<longleftrightarrow> CHR ''a'' \<le> c \<and> c \<le> CHR ''z''"

definition isWordChar :: "char \<Rightarrow> bool" where
  \<comment> \<open>the regular expression class \<open>\w\<close>, that is \<open>[A-Za-z0-9_]\<close>\<close>
  "isWordChar c \<longleftrightarrow> isUpper c \<or> isLower c \<or> isDigit c \<or> c = CHR ''_''"

definition isSpace :: "char \<Rightarrow> bool" where
  \<comment> \<open>the class \<open>\s\<close> and the characters removed by \<open>trim\<close>: tab, line feed, vertical
      tab, form feed, carriage return, space and no-break space\<close>
  "isSpace c \<longleftrightarrow>
     c \<in> set [CHR 0x09, CHR 0x0A, CHR 0x0B, CHR 0x0C, CHR 0x0D, CHR 0x20, CHR 0xA0]"

definition toLowerChar :: "char \<Rightarrow> char" where
  \<comment> \<open>\<open>A\<close> to \<open>Z\<close>, and the Latin-1 capitals \<open>0xC0\<close> to \<open>0xDE\<close> except the
      multiplication sign \<open>0xD7\<close>, move up by 32\<close>
  "toLowerChar c =
     (if isUpper c \<or> (CHR 0xC0 \<le> c \<and> c \<le> CHR 0xDE \<and> c \<noteq> CHR 0xD7)
      then char_of (of_char c + (32::nat)) else c)"

definition toLowerCase :: "string \<Rightarrow> string" where
  "toLowerCase s = map toLowerChar s"

definition trim :: "string \<Rightarrow> string" where
  "trim s = rev (dropWhile isSpace (rev (dropWhile isSpace s)))"

definition substring :: "string \<Rightarrow> nat \<Rightarrow> nat \<Rightarrow> string" where
  \<comment> \<open>\<open>s.substring(a, b)\<close>: the arguments are swapped when \<open>a > b\<close> and clamped to the
      length\<close>
  "substring s a b = take (max a b - min a b) (drop (min a b) s)"

fun indexOf :: "string \<Rightarrow> string \<Rightarrow> nat option" where
  \<comment> \<open>\<open>s.indexOf(w)\<close>, with \<open>None\<close> for \<open>-1\<close>\<close>
  "indexOf [] w = (if w = [] then Some 0 else None)"
| "indexOf (c # cs) w =
     (if prefix w (c # cs) then Some 0 else map_option Suc (indexOf cs w))"

fun splitOn :: "char \<Rightarrow> string \<Rightarrow> string list" where
  \<comment> \<open>\<open>s.split(d)\<close> for a one-character separator: adjacent separators give empty
      words\<close>
  "splitOn d [] = [[]]"
| "splitOn d (c # cs) =
     (if c = d then [] # splitOn d cs
      else (case splitOn d cs of w # ws \<Rightarrow> (c # w) # ws | [] \<Rightarrow> [[c]]))"

function splitWs :: "string \<Rightarrow> string list" where
  \<comment> \<open>\<open>s.split(/\s+/)\<close>: a run of white space is one separator; white space at either
      end gives an empty word there\<close>
  "splitWs [] = [[]]"
| "splitWs (c # cs) =
     (if isSpace c then [] # splitWs (dropWhile isSpace cs)
      else (case splitWs cs of w # ws \<Rightarrow> (c # w) # ws | [] \<Rightarrow> [[c]]))"
  by pat_completeness auto
termination
  by (relation "measure length") (auto simp: less_Suc_eq_le length_dropWhile_le)

fun joinWith :: "string \<Rightarrow> string list \<Rightarrow> string" where
  \<comment> \<open>\<open>ws.join(sep)\<close>\<close>
  "joinWith sep [] = []"
| "joinWith sep [w] = w"
| "joinWith sep (w # v # ws) = w @ sep @ joinWith sep (v # ws)"

text \<open>
  A JavaScript number, as far as page numbers go: an integer or \<^verbatim>\<open>Infinity\<close>. Fractions,
  \<^verbatim>\<open>NaN\<close> and \<^verbatim>\<open>-Infinity\<close>, which \<^verbatim>\<open>parseInt\<close> on a string of digits never returns,
  are left out.
\<close>

datatype number = Finite int | Infinity



definition digitVal :: "char \<Rightarrow> int" where
  "digitVal c = int (of_char c) - 48"

definition digitsValue :: "string \<Rightarrow> int" where
  \<comment> \<open>the mathematical integer written by a string of decimal digits\<close>
  "digitsValue ds = foldl (\<lambda>n c. 10 * n + digitVal c) 0 ds"

function bitLength :: "int \<Rightarrow> nat" where
  \<comment> \<open>the number of binary digits of a positive integer\<close>
  "bitLength n = (if n \<le> 0 then 0 else Suc (bitLength (n div 2)))"
  by pat_completeness auto
termination
  by (relation "measure nat") auto

declare bitLength.simps [simp del]

definition toDouble :: "int \<Rightarrow> number" where
  \<comment> \<open>the double nearest to a non-negative integer: below \<open>2^53\<close> the integer itself;
      above, the 53 leading binary digits, rounded to nearest with ties to even, and
      \<^verbatim>\<open>Infinity\<close> when the rounded value reaches \<open>2^1024\<close>\<close>
  "toDouble n =
     (if n < 2 ^ 53 then Finite n
      else
        (let e = bitLength n - 53;
             q = n div 2 ^ e;
             r = n mod 2 ^ e;
             q' = (if 2 * r > 2 ^ e \<or> (2 * r = 2 ^ e \<and> odd q) then q + 1 else q)
         in if q' * 2 ^ e \<ge> 2 ^ 1024 then Infinity else Finite (q' * 2 ^ e)))"

definition parseInt :: "string \<Rightarrow> number" where
  \<comment> \<open>\<open>parseInt(ds, 10)\<close> on a string of decimal digits: the double of the integer
      written. Beyond 20 digits ECMAScript lets an implementation read the later digits
      as 0 before rounding; the value here is the rounding of the exact integer.\<close>
  "parseInt ds = toDouble (digitsValue ds)"

fun showNat :: "nat \<Rightarrow> string" where
  "showNat n =
     (if n < 10 then [char_of (48 + n)]
      else showNat (n div 10) @ [char_of (48 + n mod 10)])"

declare showNat.simps [simp del]

definition showInt :: "int \<Rightarrow> string" where
  \<comment> \<open>an integer inside a template literal\<close>
  "showInt i = (if i < 0 then CHR ''-'' # showNat (nat (- i)) else showNat (nat i))"

section \<open>Page reference parser\<close>

text \<open>
  \<^verbatim>\<open>parsePageReferences\<close> of \<^verbatim>\<open>sourceExtractionService.ts\<close>:
  \<^verbatim>\<open>
  const pageRegex = /\[P(\d+)\]/g;
  const matches = Array.from(response.matchAll(pageRegex));
  return matches.map(match => parseInt(match[1], 10)).filter(Boolean);
  \<close>
  \<open>matchPageRef\<close> tries the expression at the head of the string: \<open>[P\<close>, the longest
  run of digits (a shorter run is followed by a digit, never by \<open>]\<close>, so backtracking
  cannot help), and \<open>]\<close>. It returns the captured digits and the text after the match.
\<close>

fun matchPageRef :: "string \<Rightarrow> (string \<times> string) option" where
  "matchPageRef (a # b # rest) =
     (if a = CHR ''['' \<and> b = CHR ''P'' then
        (case dropWhile isDigit rest of
           [] \<Rightarrow> None
         | c # after \<Rightarrow>
             if takeWhile isDigit rest \<noteq> [] \<and> c = CHR '']''
             then Some (takeWhile isDigit rest, after) else None)
      else None)"
| "matchPageRef _ = None"

function matchAllPageRefs :: "string \<Rightarrow> string list" where
  \<comment> \<open>\<open>matchAll\<close> with the global flag: after a match the search goes on behind it,
      after a failure one character further\<close>
  "matchAllPageRefs [] = []"
| "matchAllPageRefs (c # cs) =
     (case matchPageRef (c # cs) of
        Some (ds, after) \<Rightarrow> ds # matchAllPageRefs after
      | None \<Rightarrow> matchAllPageRefs cs)"
  by pat_completeness auto
termination
proof (relation "measure length")
  fix c cs x ds after
  assume "matchPageRef (c # cs) = Some x" "(ds, after) = x"
  then have "length after < length (c # cs)"
    using length_dropWhile_le [of isDigit "tl cs"]
    by (cases cs) (auto split: if_splits list.splits)
  then show "(after, c # cs) \<in> measure length" by simp
qed simp_all

definition parsePageReferences :: "string \<Rightarrow> number list" where
  \<comment> \<open>\<open>filter(Boolean)\<close> drops the number 0\<close>
  "parsePageReferences response =
     filter (\<lambda>n. n \<noteq> Finite 0) (map parseInt (matchAllPageRefs response))"

section \<open>Highlight link builder\<close>

definition hexDigit :: "nat \<Rightarrow> char" where
  "hexDigit n = ''0123456789ABCDEF'' ! n"

definition percentByte :: "nat \<Rightarrow> string" where
  "percentByte n = [CHR ''%'', hexDigit (n div 16), hexDigit (n mod 16)]"

definition isUnreserved :: "char \<Rightarrow> bool" where
  \<comment> \<open>the characters \<open>encodeURIComponent\<close> leaves alone: letters, digits and
      \<open>- _ . ! ~ * ' ( )\<close>\<close>
  "isUnreserved c \<longleftrightarrow>
     isUpper c \<or> isLower c \<or> isDigit c \<or> c \<in> set (CHR 0x27 # ''-_.!~*()'')"

definition encodeChar :: "char \<Rightarrow> string" where
  \<comment> \<open>any other character is written as the bytes of its UTF-8 encoding, each as
      \<open>%XX\<close>: one byte below 128, two bytes from 128 to 255\<close>
  "encodeChar c =
     (if isUnreserved c then [c]
      else if of_char c < (128::nat) then percentByte (of_char c)
      else percentByte (192 + of_char c div 64) @ percentByte (128 + of_char c mod 64))"

definition encodeURIComponent :: "string \<Rightarrow> string" where
  "encodeURIComponent s = concat (map encodeChar s)"

text \<open>
  \<^verbatim>\<open>PDFExtractionService.generateHighlightURL\<close>:
  \<^verbatim>\<open>
  const words = searchText.toLowerCase()
    .replace(/[^\w\s]/g, ' ')
    .split(/\s+/)
    .filter(word => word.length > 3)
    .slice(0, 3)
    .join(' ');
  return `${pdfUrl}#page=${page}&search=${encodeURIComponent(words)}`;
  \<close>
\<close>

definition replacePunct :: "string \<Rightarrow> string" where
  \<comment> \<open>\<open>.replace(/[^\w\s]/g, ' ')\<close>\<close>
  "replacePunct s = map (\<lambda>c. if \<not> isWordChar c \<and> \<not> isSpace c then CHR '' '' else c) s"

definition highlightWords :: "string \<Rightarrow> string list" where
  "highlightWords searchText =
     take 3 (filter (\<lambda>word. length word > 3) (splitWs (replacePunct (toLowerCase searchText))))"

definition generateHighlightURL :: "string \<Rightarrow> int \<Rightarrow> string \<Rightarrow> string" where
  "generateHighlightURL pdfUrl page searchText =
     pdfUrl @ ''#page='' @ showInt page @ ''&search=''
       @ encodeURIComponent (joinWith '' '' (highlightWords searchText))"

text \<open>
  The link builder as the specification words it, for comparison with the source: strip
  punctuation from the quote, split into words, keep only words longer than 3 characters,
  take the first 3, join with spaces, URL-encode, and append as a page and search locator
  to the base URL. Punctuation is read as the source reads it (neither a word character
  nor white space), and stripped as the source strips it (replaced by a space).
\<close>

definition spec_buildLink :: "string \<Rightarrow> int \<Rightarrow> string \<Rightarrow> string" where
  "spec_buildLink baseUrl page quoteText =
     baseUrl @ ''#page='' @ showInt page @ ''&search=''
       @ encodeURIComponent (joinWith '' ''
           (take 3 (filter (\<lambda>word. length word > 3) (splitWs (replacePunct quoteText)))))"

section \<open>Citation locator: the keyword fallback\<close>

datatype relevance = High | Medium | Low

text \<open>
  The object type \<^verbatim>\<open>{ page: number; content: string }\<close> of the page texts, and the
  interfaces \<^verbatim>\<open>PageReference\<close> and \<^verbatim>\<open>ExtractionResult\<close>. The fields \<^verbatim>\<open>section\<close> and
  \<^verbatim>\<open>context\<close> are named \<open>sectionLabel\<close> and \<open>contextText\<close> here. The interface
  requires \<^verbatim>\<open>exactText\<close>, but a citation parsed from the reply of a language model may
  lack it, so the field is optional. Page numbers are integers. The confidence is a rational number: the source computes it in double
  precision, and nothing below depends on the rounding of the sum.
\<close>

record PageText =
  pt_page :: int
  pt_content :: string

record PageReference =
  page :: int
  sectionLabel :: "string option"
  exactText :: "string option"
  relevance :: relevance
  contextText :: string
  highlightURL :: "string option"

record ExtractionResult =
  sources :: "PageReference list"
  confidence :: rat

definition queryWordsOf :: "string \<Rightarrow> string list" where
  \<comment> \<open>\<open>originalQuery.toLowerCase().split(' ').filter(w => w.length > 3)\<close>\<close>
  "queryWordsOf originalQuery =
     filter (\<lambda>w. length w > 3) (splitOn CHR '' '' (toLowerCase originalQuery))"

record MatchState =
  bestMatch :: string
  bestContext :: string
  matchScore :: nat

definition matchWord :: "string \<Rightarrow> MatchState \<Rightarrow> string \<Rightarrow> MatchState" where
  \<comment> \<open>the body of the loop over the query words; \<open>index - 100\<close> on naturals is
      \<open>Math.max(0, index - 100)\<close>\<close>
  "matchWord content st word =
     (case indexOf (toLowerCase content) word of
        None \<Rightarrow> st
      | Some index \<Rightarrow>
          (let chunk = substring content (index - 100) (min (length content) (index + 300))
           in if length chunk > length (bestMatch st)
              then \<lparr>bestMatch = chunk,
                    bestContext = substring content (index - 200)
                                    (min (length content) (index + 400)),
                    matchScore = matchScore st + 1\<rparr>
              else st\<lparr>matchScore := matchScore st + 1\<rparr>))"

definition relevanceOf :: "nat \<Rightarrow> nat \<Rightarrow> relevance" where
  \<comment> \<open>\<open>matchScore >= queryWords.length * 0.7\<close> and \<open>* 0.3\<close>. The doubles 0.7 and 0.3
      lie just below the rationals, and the rounded product of a length below \<open>2^50\<close>
      compares with an integer as the exact product does.\<close>
  "relevanceOf score n =
     (if of_nat score \<ge> of_nat n * (7 / 10 :: rat) then High
      else if of_nat score \<ge> of_nat n * (3 / 10 :: rat) then Medium
      else Low)"

definition headingMatch :: "string \<Rightarrow> string option" where
  \<comment> \<open>the first group of \<open>/^([A-Z][^.]{10,60})\n/\<close>: a capital, then the largest
      number \<open>k\<close> from 10 to 60 of characters other than the full stop that are followed
      by a line feed\<close>
  "headingMatch s =
     (case s of
        [] \<Rightarrow> None
      | c # cs \<Rightarrow>
          if isUpper c then
            (case filter (\<lambda>k. k \<le> length (takeWhile (\<lambda>x. x \<noteq> CHR ''.'') cs)
                               \<and> k < length cs \<and> cs ! k = CHR 0x0A)
                         (rev [10 ..< 61]) of
               [] \<Rightarrow> None
             | k # _ \<Rightarrow> Some (c # take k cs))
          else None)"

definition fallbackSource :: "string list \<Rightarrow> PageText \<Rightarrow> PageReference" where
  \<comment> \<open>one round of the loop over the page texts\<close>
  "fallbackSource queryWords pt =
     (let st = foldl (matchWord (pt_content pt))
                 \<lparr>bestMatch = [], bestContext = [], matchScore = 0\<rparr> queryWords;
          st' = (if matchScore st = 0
                 then st\<lparr>bestMatch := substring (pt_content pt) 0 300,
                         bestContext := substring (pt_content pt) 0 500\<rparr>
                 else st)
      in \<lparr>page = pt_page pt,
          sectionLabel = Some (case headingMatch (pt_content pt) of
                                 Some h \<Rightarrow> trim h
                               | None \<Rightarrow> ''Page '' @ showInt (pt_page pt)),
          exactText = Some (trim (bestMatch st')),
          relevance = relevanceOf (matchScore st) (length queryWords),
          contextText = trim (bestContext st'),
          highlightURL = None\<rparr>)"

definition relevanceWeight :: "relevance \<Rightarrow> rat" where
  "relevanceWeight r = (case r of High \<Rightarrow> 3 / 10 | Medium \<Rightarrow> 2 / 10 | Low \<Rightarrow> 1 / 10)"

definition createIntelligentFallback ::
  "string \<Rightarrow> string \<Rightarrow> PageText list \<Rightarrow> ExtractionResult" where
  "createIntelligentFallback originalQuery chatPDFResponse pageTexts =
     (let srcs = map (fallbackSource (queryWordsOf originalQuery)) pageTexts
      in \<lparr>sources = srcs,
          confidence =
            (if length srcs > 0
             then min (8 / 10) (foldl (\<lambda>acc s. acc + relevanceWeight (relevance s)) 0 srcs)
             else 3 / 10)\<rparr>)"

section \<open>Sources panel\<close>

text \<open>
  The interface \<^verbatim>\<open>PDFSource\<close> of the sources panel and the comparison function of
  \<^verbatim>\<open>PDFSourcesPanel\<close> and \<^verbatim>\<open>EnhancedPDFSourcesPanel\<close>:
  \<^verbatim>\<open>
  const relevanceOrder = { 'high': 3, 'medium': 2, 'low': 1 };
  const aRelevance = relevanceOrder[a.relevance || 'medium'] || 2;
  const bRelevance = relevanceOrder[b.relevance || 'medium'] || 2;
  if (aRelevance !== bRelevance) { return bRelevance - aRelevance; }
  return a.page - b.page;
  \<close>
\<close>

record PDFSource =
  srcPage :: int
  srcSection :: "string option"
  srcExactText :: "string option"
  srcRelevance :: "relevance option"
  srcContext :: "string option"

definition relevanceOrder :: "relevance \<Rightarrow> int" where
  "relevanceOrder r = (case r of High \<Rightarrow> 3 | Medium \<Rightarrow> 2 | Low \<Rightarrow> 1)"

definition effectiveRelevance :: "PDFSource \<Rightarrow> relevance" where
  \<comment> \<open>\<open>a.relevance || 'medium'\<close>\<close>
  "effectiveRelevance a = (case srcRelevance a of None \<Rightarrow> Medium | Some r \<Rightarrow> r)"

definition relevanceRank :: "PDFSource \<Rightarrow> int" where
  \<comment> \<open>\<open>relevanceOrder[a.relevance || 'medium'] || 2\<close>: no entry of the table is 0\<close>
  "relevanceRank a = relevanceOrder (effectiveRelevance a)"

definition compareSources :: "PDFSource \<Rightarrow> PDFSource \<Rightarrow> int" where
  "compareSources a b =
     (if relevanceRank a \<noteq> relevanceRank b then relevanceRank b - relevanceRank a
      else srcPage a - srcPage b)"

text \<open>
  \<^verbatim>\<open>Array.prototype.sort\<close> with a comparison function is a stable sort. An element goes
  before the first element of the sorted rest that does not compare below it.
\<close>

fun insertSorted :: "('a \<Rightarrow> 'a \<Rightarrow> int) \<Rightarrow> 'a \<Rightarrow> 'a list \<Rightarrow> 'a list" where
  "insertSorted cmp x [] = [x]"
| "insertSorted cmp x (y # ys) =
     (if cmp x y \<le> 0 then x # y # ys else y # insertSorted cmp x ys)"

fun sortWith :: "('a \<Rightarrow> 'a \<Rightarrow> int) \<Rightarrow> 'a list \<Rightarrow> 'a list" where
  "sortWith cmp [] = []"
| "sortWith cmp (x # xs) = insertSorted cmp x (sortWith cmp xs)"

definition sortedSources :: "PDFSource list \<Rightarrow> PDFSource list" where
  "sortedSources srcs = sortWith compareSources srcs"

definition spec_ranked :: "(relevance \<times> int) list \<Rightarrow> bool" where
  \<comment> \<open>the order of the specification: relevance descending (high, medium, low), and
      ascending page number within one relevance\<close>
  "spec_ranked rps =
     sorted_wrt (\<lambda>(r1, p1) (r2, p2).
        relevanceOrder r2 < relevanceOrder r1 \<or> (r1 = r2 \<and> p1 \<le> p2)) rps"

section \<open>PDF text extractor\<close>

text \<open>
  A thrown \<^verbatim>\<open>Error\<close> is a value carrying its message. The outside world of the
  extractor is a record of what its calls answer:
  \<^item> \<open>getDocument url\<close> is \<^verbatim>\<open>pdfjsLib.getDocument({url, ...}).promise\<close>: it fails or
    gives a document with its number of pages and, for a page number, either a failure
    of \<^verbatim>\<open>getPage\<close> or \<^verbatim>\<open>getTextContent\<close> or the page text assembled from the text
    items (the items' coordinates are floating point numbers, and their order does not
    matter to what is proved here; the field \<^verbatim>\<open>textItems\<close> of a page, which no caller
    reads, is left out);
  \<^item> \<open>importPdfParse\<close> tells whether the dynamic import of \<^verbatim>\<open>pdf-parse\<close> succeeds;
  \<^item> \<open>fetchPdf url\<close> is \<^verbatim>\<open>fetch(pdfUrl)\<close>, failing or giving a response;
  \<^item> \<open>pdfParse body\<close> is reading the bytes of the response and parsing them, failing
    or giving the text and the number of pages;
  \<^item> \<open>openai\<close> and \<open>groq\<close> are the two clients, absent without an API key; a call
    fails (also on an empty reply, on a reply that is not JSON and on one without an
    array of sources) or gives the parsed reply: a confidence and a list of citations,
    each with or without its \<^verbatim>\<open>exactText\<close>.
  Every call that goes to the network for the document is recorded as an event.
\<close>

datatype error = Error string

datatype event = GetDocument string | Fetch string

record PDFDocument =
  numPages :: int
  pageTextOf :: "int \<Rightarrow> error + string"

record PDFPage =
  pageNumber :: int
  pageText :: string

record FetchResponse =
  ok :: bool
  statusText :: string
  body :: string

record PdfData =
  pdfText :: string
  numpages :: nat

record World =
  getDocument :: "string \<Rightarrow> error + PDFDocument"
  importPdfParse :: bool
  fetchPdf :: "string \<Rightarrow> error + FetchResponse"
  pdfParse :: "string \<Rightarrow> error + PdfData"
  openai :: "(string \<Rightarrow> string \<Rightarrow> PageText list \<Rightarrow> error + ExtractionResult) option"
  groq :: "(string \<Rightarrow> string \<Rightarrow> PageText list \<Rightarrow> error + ExtractionResult) option"

record DocumentInfo =
  doc_id :: string
  doc_name :: string
  doc_url :: "string option"
  doc_file_url :: "string option"

fun extractLoop :: "PDFDocument \<Rightarrow> int list \<Rightarrow> error + PDFPage list" where
  \<comment> \<open>the loop of \<^verbatim>\<open>extractPages\<close>: a page out of range is skipped with a warning\<close>
  "extractLoop pdf [] = Inr []"
| "extractLoop pdf (pageNum # rest) =
     (if pageNum < 1 \<or> pageNum > numPages pdf then extractLoop pdf rest
      else (case pageTextOf pdf pageNum of
              Inl e \<Rightarrow> Inl e
            | Inr t \<Rightarrow>
                (case extractLoop pdf rest of
                   Inl e \<Rightarrow> Inl e
                 | Inr results \<Rightarrow> Inr (\<lparr>pageNumber = pageNum, pageText = t\<rparr> # results))))"

definition wrapError :: "error \<Rightarrow> error" where
  \<comment> \<open>\<open>new Error(`PDF extraction failed: ${error.message}`)\<close>\<close>
  "wrapError e = (case e of Error m \<Rightarrow> Error (''PDF extraction failed: '' @ m))"

definition extractPages :: "World \<Rightarrow> string \<Rightarrow> int list \<Rightarrow> event list \<times> (error + PDFPage list)" where
  "extractPages w pdfUrl pageNumbers =
     ([GetDocument pdfUrl],
      (case getDocument w pdfUrl of
         Inl e \<Rightarrow> Inl (wrapError e)
       | Inr pdf \<Rightarrow>
           (case extractLoop pdf pageNumbers of
              Inl e \<Rightarrow> Inl (wrapError e)
            | Inr results \<Rightarrow> Inr results)))"

definition orElse :: "string option \<Rightarrow> string option \<Rightarrow> string option" where
  \<comment> \<open>\<open>a || b\<close> on optional strings: the empty string is falsy\<close>
  "orElse a b = (case a of Some s \<Rightarrow> if s \<noteq> [] then Some s else b | None \<Rightarrow> b)"

definition elementAt :: "string list \<Rightarrow> int \<Rightarrow> string option" where
  \<comment> \<open>\<open>pages[i]\<close>: \<open>undefined\<close> outside the array\<close>
  "elementAt pages i = (if 0 \<le> i \<and> i < int (length pages) then Some (pages ! nat i) else None)"

definition fallbackContent :: "int \<Rightarrow> string" where
  "fallbackContent p =
     ''Unable to extract specific content from page '' @ showInt p @ ''.''
     @ [CHR 0x0A, CHR 0x0A]
     @ ''      This document may have complex formatting or access restrictions.''
     @ [CHR 0x0A]
     @ ''      The AI response above is based on the document content, but exact page text extraction failed.''"

definition fallbackPDFExtraction :: "string \<Rightarrow> int list \<Rightarrow> PageText list" where
  "fallbackPDFExtraction pdfUrl pageNumbers =
     map (\<lambda>p. \<lparr>pt_page = p, pt_content = fallbackContent p\<rparr>) pageNumbers"

definition indexOfFrom :: "string \<Rightarrow> string \<Rightarrow> nat \<Rightarrow> nat option" where
  \<comment> \<open>\<open>s.indexOf(w, k)\<close>\<close>
  "indexOfFrom s w k = map_option (\<lambda>i. i + k) (indexOf (drop k s) w)"

fun splitLoop :: "string \<Rightarrow> nat \<Rightarrow> nat \<Rightarrow> nat \<Rightarrow> string list" where
  \<comment> \<open>the loop of \<^verbatim>\<open>splitTextIntoPages\<close>, with the number of rounds left and
      \<open>currentPos\<close>; \<open>nextSentenceEnd - end < avgPageLength * 0.3\<close> compares exactly\<close>
  "splitLoop txt avgPageLength 0 currentPos = []"
| "splitLoop txt avgPageLength (Suc k) currentPos =
     (let end' = min (currentPos + avgPageLength) (length txt);
          actualEnd =
            (if end' < length txt then
               (case indexOfFrom txt ''.'' end' of
                  Some nextSentenceEnd \<Rightarrow>
                    if (of_nat (nextSentenceEnd - end') :: rat) < of_nat avgPageLength * (3 / 10)
                    then nextSentenceEnd + 1 else end'
                | None \<Rightarrow> end')
             else end')
      in trim (substring txt currentPos actualEnd)
           # splitLoop txt avgPageLength k actualEnd)"

definition splitTextIntoPages :: "string \<Rightarrow> nat \<Rightarrow> string list" where
  \<comment> \<open>with no page the loop does not run, whatever the quotient is\<close>
  "splitTextIntoPages txt totalPages =
     splitLoop txt (length txt div totalPages) totalPages 0"

definition extractRealPDFText :: "World \<Rightarrow> string \<Rightarrow> int list \<Rightarrow> event list \<times> PageText list" where
  \<comment> \<open>every failure inside is caught and answered by the placeholder\<close>
  "extractRealPDFText w pdfUrl pageNumbers =
     (if \<not> importPdfParse w then ([], fallbackPDFExtraction pdfUrl pageNumbers)
      else
        ([Fetch pdfUrl],
         (case fetchPdf w pdfUrl of
            Inl e \<Rightarrow> fallbackPDFExtraction pdfUrl pageNumbers
          | Inr response \<Rightarrow>
              if \<not> ok response then fallbackPDFExtraction pdfUrl pageNumbers
              else (case pdfParse w (body response) of
                      Inl e \<Rightarrow> fallbackPDFExtraction pdfUrl pageNumbers
                    | Inr pdfData \<Rightarrow>
                        (let pages = splitTextIntoPages (pdfText pdfData) (numpages pdfData)
                         in map (\<lambda>pageNum.
                              \<lparr>pt_page = pageNum,
                               pt_content =
                                 (case elementAt pages (pageNum - 1) of
                                    Some t \<Rightarrow>
                                      if t \<noteq> [] then t
                                      else ''Page '' @ showInt pageNum @ '' content not available''
                                  | None \<Rightarrow>
                                      ''Page '' @ showInt pageNum @ '' content not available'')\<rparr>)
                              pageNumbers)))))"

definition extractViaPDFjs ::
  "World \<Rightarrow> DocumentInfo \<Rightarrow> int list \<Rightarrow> event list \<times> (error + PageText list)" where
  "extractViaPDFjs w document pageNumbers =
     (case orElse (doc_url document) (doc_file_url document) of
        None \<Rightarrow> ([], Inl (Error ''Document URL not available''))
      | Some pdfUrl \<Rightarrow>
          if pdfUrl = [] then ([], Inl (Error ''Document URL not available''))
          else (case extractPages w pdfUrl pageNumbers of
                  (evs, Inl e) \<Rightarrow> (evs, Inl e)
                | (evs, Inr extractedPages) \<Rightarrow>
                    (evs, Inr (map (\<lambda>p. \<lparr>pt_page = pageNumber p, pt_content = pageText p\<rparr>)
                                 extractedPages))))"

text \<open>
  \<^verbatim>\<open>extractTextFromPages\<close> reads the text cache of the service, a map from document
  identifiers to page texts, and returns it with the events and the page texts. The
  source looks the document up (\<^verbatim>\<open>this.textCache.get(document.id)\<close>) and, on a miss,
  tries PDF.js, then \<^verbatim>\<open>pdf-parse\<close>, then the placeholder. No statement of the class
  stores into the cache; \<^verbatim>\<open>clearCache\<close> empties it.
\<close>

type_synonym TextCache = "string \<rightharpoonup> string list"

definition extractTextFromPages ::
  "World \<Rightarrow> TextCache \<Rightarrow> DocumentInfo \<Rightarrow> int list \<Rightarrow> TextCache \<times> event list \<times> PageText list" where
  "extractTextFromPages w textCache document pageNumbers =
     (case textCache (doc_id document) of
        Some cachedText \<Rightarrow>
          (textCache, [],
           map (\<lambda>pageNum.
                  \<lparr>pt_page = pageNum,
                   pt_content = (case elementAt cachedText (pageNum - 1) of
                                   Some t \<Rightarrow> t | None \<Rightarrow> [])\<rparr>)
               pageNumbers)
      | None \<Rightarrow>
          (let (evs1, r1) = extractViaPDFjs w document pageNumbers;
               pdfPages = (case r1 of Inr ps \<Rightarrow> ps | Inl e \<Rightarrow> [])
           in if length pdfPages > 0 then (textCache, evs1, pdfPages)
              else
                (case orElse (doc_url document) (doc_file_url document) of
                   Some pdfUrl \<Rightarrow>
                     if pdfUrl \<noteq> []
                     then (let (evs2, extractedPages) = extractRealPDFText w pdfUrl pageNumbers
                           in (textCache, evs1 @ evs2, extractedPages))
                     else (textCache, evs1, fallbackPDFExtraction [] pageNumbers)
                 | None \<Rightarrow> (textCache, evs1, fallbackPDFExtraction [] pageNumbers))))"

definition clearCache :: "TextCache \<Rightarrow> TextCache" where
  "clearCache textCache = Map.empty"

section \<open>Citation pipeline\<close>

definition tryClient ::
  "(string \<Rightarrow> string \<Rightarrow> PageText list \<Rightarrow> error + ExtractionResult) option
     \<Rightarrow> string \<Rightarrow> string \<Rightarrow> PageText list \<Rightarrow> ExtractionResult option" where
  \<comment> \<open>\<open>if (client) { try { return await ... } catch { warn } }\<close>: the result of the
      client when there is one and it succeeds\<close>
  "tryClient client originalQuery chatPDFResponse pageTexts =
     (case client of
        None \<Rightarrow> None
      | Some ask \<Rightarrow>
          (case ask originalQuery chatPDFResponse pageTexts of
             Inr result \<Rightarrow> Some result
           | Inl e \<Rightarrow> None))"

definition findExactSources ::
  "World \<Rightarrow> string \<Rightarrow> string \<Rightarrow> PageText list \<Rightarrow> ExtractionResult" where
  \<comment> \<open>OpenAI first, then Groq, then the keyword fallback\<close>
  "findExactSources w originalQuery chatPDFResponse pageTexts =
     (case tryClient (openai w) originalQuery chatPDFResponse pageTexts of
        Some result \<Rightarrow> result
      | None \<Rightarrow>
          (case tryClient (groq w) originalQuery chatPDFResponse pageTexts of
             Some result \<Rightarrow> result
           | None \<Rightarrow> createIntelligentFallback originalQuery chatPDFResponse pageTexts))"

definition minOf :: "int list \<Rightarrow> int" where
  \<comment> \<open>\<open>Math.min(...pageNumbers)\<close> on a list that is not empty\<close>
  "minOf ns = foldl min (hd ns) (tl ns)"

definition maxOf :: "int list \<Rightarrow> int" where
  "maxOf ns = foldl max (hd ns) (tl ns)"

text \<open>
  \<^verbatim>\<open>extractSources\<close>. The page numbers come from the references of the provider when
  there are some, from the markers of the answer otherwise; with no page number the
  result is empty with confidence 0. Otherwise the pages from \<open>min - 1\<close> (at least 1) to
  \<open>max + 1\<close> are collected by a loop that pushes them one by one:
  \<^verbatim>\<open>
  for (let i = minPage; i <= maxPage; i++) { expandedPages.push(i); }
  \<close>
  The loop ends when \<open>maxPage\<close> is below \<open>2^53\<close> (from there on \<open>i++\<close> does not
  move a double forward) and the range has fewer than \<open>2^32\<close> pages (an array holds no
  more). Otherwise it does not end normally, and no result is stated: the value is
  \<open>None\<close>. Below \<open>2^53\<close> the arithmetic on doubles is the arithmetic on integers.
\<close>

definition pageNumbersOf :: "number list option \<Rightarrow> string \<Rightarrow> number list" where
  "pageNumbersOf chatPDFReferences chatPDFResponse =
     (case chatPDFReferences of
        Some refs \<Rightarrow> if length refs > 0 then refs else parsePageReferences chatPDFResponse
      | None \<Rightarrow> parsePageReferences chatPDFResponse)"

fun finiteNumbers :: "number list \<Rightarrow> int list option" where
  "finiteNumbers [] = Some []"
| "finiteNumbers (Finite i # ns) = map_option ((#) i) (finiteNumbers ns)"
| "finiteNumbers (Infinity # ns) = None"

definition expandedPagesOf :: "number list \<Rightarrow> int list option" where
  "expandedPagesOf pageNumbers =
     (case finiteNumbers pageNumbers of
        None \<Rightarrow> None
      | Some ns \<Rightarrow>
          (let minPage = max 1 (minOf ns - 1);
               maxPage = maxOf ns + 1
           in if maxPage < 2 ^ 53 \<and> maxPage - minPage + 1 < 2 ^ 32
              then Some [minPage .. maxPage]
              else None))"

definition withHighlightURL :: "string \<Rightarrow> PageReference \<Rightarrow> PageReference" where
  \<comment> \<open>\<open>{ ...source, highlightURL }\<close>, for a citation that has its \<^verbatim>\<open>exactText\<close>\<close>
  "withHighlightURL pdfUrl source =
     (case exactText source of
        Some quote \<Rightarrow>
          source\<lparr>highlightURL := Some (generateHighlightURL pdfUrl (page source) quote)\<rparr>
      | None \<Rightarrow> source)"

text \<open>
  After the citations are located, each gets its highlight link when the document has a
  URL, and the sources are logged with \<^verbatim>\<open>source.exactText.substring(0, 100)\<close>. On a
  citation without \<^verbatim>\<open>exactText\<close> the link builder (\<^verbatim>\<open>searchText.toLowerCase()\<close>) or that
  logging raises a \<^verbatim>\<open>TypeError\<close>; the \<^verbatim>\<open>catch\<close> of the pipeline answers it with the
  empty result and confidence 0.
\<close>

definition extractSources ::
  "World \<Rightarrow> TextCache \<Rightarrow> string \<Rightarrow> string \<Rightarrow> DocumentInfo \<Rightarrow> number list option
     \<Rightarrow> (TextCache \<times> event list \<times> ExtractionResult) option" where
  "extractSources w textCache originalQuery chatPDFResponse document chatPDFReferences =
     (let pageNumbers = pageNumbersOf chatPDFReferences chatPDFResponse
      in if length pageNumbers = 0
         then Some (textCache, [], \<lparr>sources = [], confidence = 0\<rparr>)
         else
           (case expandedPagesOf pageNumbers of
              None \<Rightarrow> None
            | Some expandedPages \<Rightarrow>
                (let (textCache', evs, pageTexts) =
                       extractTextFromPages w textCache document expandedPages;
                     result = findExactSources w originalQuery chatPDFResponse pageTexts
                 in if list_ex (\<lambda>source. exactText source = None) (sources result)
                    then Some (textCache', evs, \<lparr>sources = [], confidence = 0\<rparr>)
                    else
                      Some (textCache', evs,
                        (case orElse (doc_url document) (doc_file_url document) of
                           Some pdfUrl \<Rightarrow>
                             if pdfUrl \<noteq> []
                             then result\<lparr>sources := map (withHighlightURL pdfUrl) (sources result)\<rparr>
                             else result
                         | None \<Rightarrow> result)))))"

section \<open>Answer service router\<close>

text \<open>
  \<^verbatim>\<open>AIServiceSwitcher\<close>. The backend service and the response adapters are imported from
  modules outside the sources at hand, so they are fields of the router's world, with
  the configured \<^verbatim>\<open>VITE_AI_SERVICE\<close> and the Claude citations service; the raw backend
  result \<open>'b\<close> and the unified response \<open>'u\<close> are left open. Every provider call and
  every adapter may fail. The calls made to a provider are recorded in order.
\<close>

record RouterDocumentInfo =
  info_id :: string
  document_name :: "string option"
  document_url :: "string option"
  file_url :: "string option"

record QueryParams =
  message :: string
  documentId :: string
  documentData :: RouterDocumentInfo
  userId :: string
  limit :: "int option"

record BackendRequest =
  req_message :: string
  req_documentId :: string
  req_documentData :: RouterDocumentInfo
  req_userId :: string
  req_limit :: int
  forceService :: "string option"

record ClaudeDocument =
  cd_id :: string
  cd_name :: string
  cd_url :: "string option"
  cd_file_url :: "string option"

record ClaudeSource =
  cs_content :: string
  chunk_index :: int
  document_index :: int

record ClaudeCitationsResponse =
  cr_content :: string
  citations :: "ClaudeSource list"
  model :: string
  input_tokens :: int
  output_tokens :: int

datatype call = BackendQuery BackendRequest | ClaudeQuery string ClaudeDocument

record ('b, 'u) RouterWorld =
  VITE_AI_SERVICE :: "string option"
  backendQuery :: "BackendRequest \<Rightarrow> error + 'b"
  claudeAvailable :: bool
  queryDocumentWithCitations :: "string \<Rightarrow> ClaudeDocument \<Rightarrow> error + ClaudeCitationsResponse"
  adaptBackendResponse :: "'b \<Rightarrow> error + 'u"
  adaptChatPDFResponse :: "'b \<Rightarrow> string \<Rightarrow> error + 'u"
  adaptAnthropicResponse :: "ClaudeCitationsResponse \<Rightarrow> string \<Rightarrow> int \<Rightarrow> int \<Rightarrow> error + 'u"
  createMockAnthropicResponse :: "string \<Rightarrow> string \<Rightarrow> string \<Rightarrow> error + 'u"

definition validTypes :: "string list" where
  "validTypes = [''backend'', ''chatpdf'', ''anthropic'', ''anthropic-mockup'']"

definition getServiceType :: "('b, 'u) RouterWorld \<Rightarrow> string" where
  "getServiceType w =
     (case VITE_AI_SERVICE w of
        Some serviceType \<Rightarrow> if serviceType \<in> set validTypes then serviceType else ''anthropic''
      | None \<Rightarrow> ''anthropic'')"

definition limitOr5 :: "int option \<Rightarrow> int" where
  \<comment> \<open>\<open>params.limit || 5\<close>\<close>
  "limitOr5 l = (case l of Some n \<Rightarrow> if n \<noteq> 0 then n else 5 | None \<Rightarrow> 5)"

definition stringOr :: "string option \<Rightarrow> string \<Rightarrow> string" where
  \<comment> \<open>\<open>a || 'default'\<close>\<close>
  "stringOr a d = (case a of Some s \<Rightarrow> if s \<noteq> [] then s else d | None \<Rightarrow> d)"

definition documentUrlOf :: "QueryParams \<Rightarrow> string" where
  \<comment> \<open>\<open>params.documentData.document_url || params.documentData.file_url || ''\<close>\<close>
  "documentUrlOf params =
     stringOr (orElse (document_url (documentData params)) (file_url (documentData params))) []"

definition queryBackend :: "('b, 'u) RouterWorld \<Rightarrow> QueryParams \<Rightarrow> call list \<times> (error + 'u)" where
  "queryBackend w params =
     (let request = \<lparr>req_message = message params, req_documentId = documentId params,
                     req_documentData = documentData params, req_userId = userId params,
                     req_limit = limitOr5 (limit params), forceService = None\<rparr>
      in ([BackendQuery request],
          (case backendQuery w request of
             Inl e \<Rightarrow> Inl e
           | Inr result \<Rightarrow> adaptBackendResponse w result)))"

definition queryChatPDF :: "('b, 'u) RouterWorld \<Rightarrow> QueryParams \<Rightarrow> call list \<times> (error + 'u)" where
  "queryChatPDF w params =
     (let request = \<lparr>req_message = message params, req_documentId = documentId params,
                     req_documentData = documentData params, req_userId = userId params,
                     req_limit = limitOr5 (limit params), forceService = Some ''chatpdf''\<rparr>
      in ([BackendQuery request],
          (case backendQuery w request of
             Inl e \<Rightarrow> Inl e
           | Inr result \<Rightarrow> adaptChatPDFResponse w result (documentUrlOf params))))"

definition claudeDocumentOf :: "QueryParams \<Rightarrow> ClaudeDocument" where
  \<comment> \<open>the document handed to \<^verbatim>\<open>queryDocumentWithCitations\<close>\<close>
  "claudeDocumentOf params =
     \<lparr>cd_id = documentId params,
      cd_name = stringOr (document_name (documentData params)) ''Document'',
      cd_url = document_url (documentData params),
      cd_file_url = file_url (documentData params)\<rparr>"

definition queryAnthropic :: "('b, 'u) RouterWorld \<Rightarrow> QueryParams \<Rightarrow> call list \<times> (error + 'u)" where
  "queryAnthropic w params =
     (if \<not> claudeAvailable w
      then ([], Inl (Error ''Claude Citations service not available - API key missing''))
      else
        ([ClaudeQuery (message params) (claudeDocumentOf params)],
         (case queryDocumentWithCitations w (message params) (claudeDocumentOf params) of
            Inl e \<Rightarrow> Inl e
          | Inr claudeResult \<Rightarrow>
              adaptAnthropicResponse w claudeResult (documentUrlOf params)
                (input_tokens claudeResult) (output_tokens claudeResult))))"

definition queryAnthropicMockup ::
  "('b, 'u) RouterWorld \<Rightarrow> QueryParams \<Rightarrow> call list \<times> (error + 'u)" where
  \<comment> \<open>no provider is called: the response is made up after two timers\<close>
  "queryAnthropicMockup w params =
     ([], createMockAnthropicResponse w (message params)
            (stringOr (document_name (documentData params)) ''Document'')
            (documentUrlOf params))"

definition callService ::
  "('b, 'u) RouterWorld \<Rightarrow> string \<Rightarrow> QueryParams \<Rightarrow> call list \<times> (error + 'u)" where
  \<comment> \<open>the \<^verbatim>\<open>switch\<close> inside the \<^verbatim>\<open>try\<close>\<close>
  "callService w serviceType params =
     (if serviceType = ''backend'' then queryBackend w params
      else if serviceType = ''chatpdf'' then queryChatPDF w params
      else if serviceType = ''anthropic'' then queryAnthropic w params
      else if serviceType = ''anthropic-mockup'' then queryAnthropicMockup w params
      else ([], Inl (Error (''Unsupported service type: '' @ serviceType))))"

definition query ::
  "('b, 'u) RouterWorld \<Rightarrow> QueryParams \<Rightarrow> string option \<Rightarrow> call list \<times> (error + 'u)" where
  "query w params overrideService =
     (let serviceType = stringOr overrideService (getServiceType w);
          (calls1, r1) = callService w serviceType params
      in case r1 of
           Inr response \<Rightarrow> (calls1, Inr response)
         | Inl error \<Rightarrow>
             (let (calls2, r2) =
                    (if serviceType \<noteq> ''anthropic'' then queryAnthropic w params
                     else ([], Inl error))
              in case r2 of
                   Inr response \<Rightarrow> (calls1 @ calls2, Inr response)
                 | Inl fallbackError \<Rightarrow>
                     if serviceType \<noteq> ''backend''
                     then (let (calls3, r3) = queryBackend w params
                           in (calls1 @ calls2 @ calls3, r3))
                     else (calls1 @ calls2, Inl error)))"

section \<open>Example inputs\<close>

definition rankingExample :: "PDFSource list" where
  \<comment> \<open>citations at pages 5 (medium), 2 (high), 9 (high) and 3 (low)\<close>
  "rankingExample =
     [\<lparr>srcPage = 5, srcSection = None, srcExactText = None, srcRelevance = Some Medium, srcContext = None\<rparr>,
      \<lparr>srcPage = 2, srcSection = None, srcExactText = None, srcRelevance = Some High, srcContext = None\<rparr>,
      \<lparr>srcPage = 9, srcSection = None, srcExactText = None, srcRelevance = Some High, srcContext = None\<rparr>,
      \<lparr>srcPage = 3, srcSection = None, srcExactText = None, srcRelevance = Some Low, srcContext = None\<rparr>]"

definition twoPageDocument :: PDFDocument where
  "twoPageDocument =
     \<lparr>numPages = 2,
      pageTextOf = (\<lambda>n. Inr (if n = 1 then ''Introduction'' else ''The dosage schedule is weekly''))\<rparr>"

definition threePageDocument :: PDFDocument where
  "threePageDocument =
     \<lparr>numPages = 3, pageTextOf = (\<lambda>n. Inr (''text of page '' @ showInt n))\<rparr>"

definition onlineWorld :: "PDFDocument \<Rightarrow> World" where
  \<comment> \<open>every URL gives the document; both parsers work; no language model client\<close>
  "onlineWorld pdf =
     \<lparr>getDocument = (\<lambda>u. Inr pdf),
      importPdfParse = True,
      fetchPdf = (\<lambda>u. Inr \<lparr>ok = True, statusText = ''OK'', body = ''%PDF''\<rparr>),
      pdfParse = (\<lambda>b. Inr \<lparr>pdfText = ''First page. Second page here. Third and last page.'',
                              numpages = 3\<rparr>),
      openai = None,
      groq = None\<rparr>"

definition offlineWorld :: World where
  \<comment> \<open>the network is down\<close>
  "offlineWorld =
     \<lparr>getDocument = (\<lambda>u. Inl (Error ''Failed to fetch'')),
      importPdfParse = True,
      fetchPdf = (\<lambda>u. Inl (Error ''Failed to fetch'')),
      pdfParse = (\<lambda>b. Inl (Error ''Invalid PDF'')),
      openai = None,
      groq = None\<rparr>"

definition exampleDocument :: DocumentInfo where
  "exampleDocument =
     \<lparr>doc_id = ''d1'', doc_name = ''Protocol'', doc_url = Some ''doc.pdf'', doc_file_url = None\<rparr>"

definition replyWorld :: "ExtractionResult \<Rightarrow> World" where
  \<comment> \<open>the OpenAI client answers with the given reply\<close>
  "replyWorld reply = (onlineWorld twoPageDocument)\<lparr>openai := Some (\<lambda>q r pts. Inr reply)\<rparr>"

definition emptyAnswerWorld :: World where
  \<comment> \<open>the OpenAI client answers \<^verbatim>\<open>{"sources": [], "confidence": 0.95}\<close>\<close>
  "emptyAnswerWorld = replyWorld \<lparr>sources = [], confidence = 19 / 20\<rparr>"

definition quotedCitation :: "string option \<Rightarrow> PageReference" where
  \<comment> \<open>a citation of page 1, with or without its quote\<close>
  "quotedCitation quote =
     \<lparr>page = 1, sectionLabel = Some ''Dosing'', exactText = quote, relevance = High,
      contextText = ''The dosage schedule is weekly'', highlightURL = None\<rparr>"


definition exampleRouter :: "string option \<Rightarrow> bool \<Rightarrow> bool \<Rightarrow> (string, string) RouterWorld" where
  \<comment> \<open>a router world with the configured service, and whether the backend and Claude
      are up; raw backend results and unified responses are strings\<close>
  "exampleRouter setting backendUp claudeUp =
     \<lparr>VITE_AI_SERVICE = setting,
      backendQuery = (\<lambda>request. if backendUp then Inr ''raw'' else Inl (Error ''backend down'')),
      claudeAvailable = claudeUp,
      queryDocumentWithCitations =
        (\<lambda>question document.
           Inr \<lparr>cr_content = ''answer'', citations = [], model = ''claude'',
                input_tokens = 10, output_tokens = 5\<rparr>),
      adaptBackendResponse = (\<lambda>result. Inr (''backend:'' @ result)),
      adaptChatPDFResponse = (\<lambda>result url. Inr (''chatpdf:'' @ result)),
      adaptAnthropicResponse = (\<lambda>result url tokensIn tokensOut. Inr (''anthropic:'' @ cr_content result)),
      createMockAnthropicResponse = (\<lambda>question name url. Inr ''mock'')\<rparr>"

definition exampleParams :: QueryParams where
  "exampleParams =
     \<lparr>message = ''What is the dose?'', documentId = ''d1'',
      documentData = \<lparr>info_id = ''d1'', document_name = Some ''Protocol'',
                       document_url = Some ''doc.pdf'', file_url = None\<rparr>,
      userId = ''u1'', limit = None\<rparr>"

section \<open>Properties of the page reference parser\<close>







text \<open>
  C7. On \<open>See [P3] and [P7] for details [P3]\<close> the parser returns \<open>[3, 7, 3]\<close>: the page
  number of every marker, in the order of the text, the repeated page kept.
\<close>

theorem parsePageReferences_example:
  "parsePageReferences ''See [P3] and [P7] for details [P3]'' = [Finite 3, Finite 7, Finite 3]"
  by code_simp




section \<open>Properties of the highlight link builder\<close>

lemma splitWs_chars:
  "w \<in> set (splitWs s) \<Longrightarrow> c \<in> set w \<Longrightarrow> c \<in> set s \<and> \<not> isSpace c"
proof (induction s arbitrary: w rule: splitWs.induct)
  case 1
  then show ?case by simp
next
  case (2 d ds)
  show ?case
  proof (cases "isSpace d")
    case True
    with 2 have "w \<in> set (splitWs (dropWhile isSpace ds))" by auto
    with 2 True have "c \<in> set (dropWhile isSpace ds) \<and> \<not> isSpace c" by blast
    then show ?thesis by (auto dest: set_dropWhileD)
  next
    case False
    show ?thesis
    proof (cases "splitWs ds")
      case Nil
      with 2 False show ?thesis by auto
    next
      case (Cons v vs)
      with 2 False have "w = d # v \<or> w \<in> set vs" by auto
      then show ?thesis
      proof
        assume w: "w = d # v"
        show ?thesis
        proof (cases "c = d")
          case True
          with False show ?thesis by simp
        next
          case False
          with w 2 have "c \<in> set v" by simp
          moreover have "v \<in> set (splitWs ds)" using Cons by simp
          ultimately show ?thesis using "2.IH"(2) \<open>\<not> isSpace d\<close> by auto
        qed
      next
        assume "w \<in> set vs"
        then have "w \<in> set (splitWs ds)" using Cons by simp
        then show ?thesis using "2.IH"(2) \<open>\<not> isSpace d\<close> 2 by auto
      qed
    qed
  qed
qed

lemma toLowerChar_not_upper: "\<not> isUpper (toLowerChar c)"
  unfolding toLowerChar_def isUpper_def less_eq_char_def
  by (auto simp: not_le) 

lemma encodeChar_space: "encodeChar CHR '' '' = ''%20''"
  by code_simp

lemma encodeURIComponent_append:
  "encodeURIComponent (a @ b) = encodeURIComponent a @ encodeURIComponent b"
  by (simp add: encodeURIComponent_def)

lemma encodeURIComponent_unreserved:
  "\<forall>c \<in> set w. isUnreserved c \<Longrightarrow> encodeURIComponent w = w"
  by (induction w) (simp_all add: encodeURIComponent_def encodeChar_def)

lemma encodeURIComponent_join:
  "\<forall>w \<in> set ws. \<forall>c \<in> set w. isUnreserved c \<Longrightarrow>
   encodeURIComponent (joinWith '' '' ws) = joinWith ''%20'' ws"
proof (induction ws rule: induct_list012[case_names Nil One More])
  case Nil
  then show ?case by (simp add: encodeURIComponent_def)
next
  case (One w)
  then show ?case by (simp add: encodeURIComponent_unreserved)
next
  case (More w v ws)
  from More.IH(2) More.prems
  have rest: "encodeURIComponent (joinWith '' '' (v # ws)) = joinWith ''%20'' (v # ws)" by simp
  have w: "encodeURIComponent w = w"
    using More.prems by (simp add: encodeURIComponent_unreserved)
  have sp: "encodeURIComponent '' '' = ''%20''"
    using encodeChar_space by (simp add: encodeURIComponent_def)
  have "encodeURIComponent (joinWith '' '' (w # v # ws))
        = encodeURIComponent w @ encodeURIComponent '' '' @ encodeURIComponent (joinWith '' '' (v # ws))"
    by (simp only: joinWith.simps encodeURIComponent_append)
  also have "\<dots> = w @ ''%20'' @ joinWith ''%20'' (v # ws)"
    by (simp only: rest w sp)
  finally show ?case by (simp only: joinWith.simps)
qed

lemma in_set_map_map: "c \<in> set (map f (map g xs)) \<Longrightarrow> \<exists>d. c = f (g d)"
  by auto

lemma highlightWords_chars:
  assumes "w \<in> set (highlightWords q)" "c \<in> set w"
  shows "isLower c \<or> isDigit c \<or> c = CHR ''_''"
proof -
  from assms(1) have "w \<in> set (splitWs (replacePunct (toLowerCase q)))"
    unfolding highlightWords_def by (auto dest: in_set_takeD)
  with assms(2) have c: "c \<in> set (replacePunct (toLowerCase q))" "\<not> isSpace c"
    using splitWs_chars by blast+
  from c(1) have "\<exists>d. c = (\<lambda>c. if \<not> isWordChar c \<and> \<not> isSpace c then CHR '' '' else c) (toLowerChar d)"
    unfolding replacePunct_def toLowerCase_def by (rule in_set_map_map)
  then obtain d0 where d: "c = (if \<not> isWordChar (toLowerChar d0) \<and> \<not> isSpace (toLowerChar d0)
                          then CHR '' '' else toLowerChar d0)"
    by blast
  have sp: "isSpace CHR '' ''" by (simp add: isSpace_def)
  from d c(2) sp have "c = toLowerChar d0" "isWordChar c"
    by (auto split: if_splits)
  then show ?thesis using toLowerChar_not_upper [of d0] by (auto simp: isWordChar_def)
qed

lemma highlightWords_long: "w \<in> set (highlightWords q) \<Longrightarrow> 3 < length w"
  unfolding highlightWords_def by (auto dest: in_set_takeD)

text \<open>
  C8, the claim as worded. The specification's link builder and the source disagree on
  the example quote: the source lowercases the quote first, so the search parameter is
  \<open>patients%20must%20between\<close>, not \<open>Patients%20must%20between\<close>.
\<close>

theorem generateHighlightURL_differs_from_spec:
  "spec_buildLink ''doc.pdf'' 4 ''Patients must be between 18 and 65 years old''
     = ''doc.pdf#page=4&search=Patients%20must%20between''
   \<and> generateHighlightURL ''doc.pdf'' 4 ''Patients must be between 18 and 65 years old''
     \<noteq> spec_buildLink ''doc.pdf'' 4 ''Patients must be between 18 and 65 years old''"
  by code_simp

text \<open>
  C8, amended. \<open>generateHighlightURL\<close> lowercases the quote, replaces every character
  that is neither a word character nor white space by a space, splits at white space,
  keeps the words longer than 3 characters, takes the first 3 of them in their order and
  appends \<open>#page=\<close>, the page, \<open>&search=\<close> and the words joined by \<open>%20\<close> (the
  URL-encoding of the words joined by spaces) to the base URL. Every word of the search
  parameter consists of lowercase letters, digits and underscores. For the example quote
  the search parameter is \<open>patients%20must%20between\<close>.
\<close>

theorem generateHighlightURL_words:
  "generateHighlightURL pdfUrl pageNum searchText =
     pdfUrl @ ''#page='' @ showInt pageNum @ ''&search='' @ joinWith ''%20'' (highlightWords searchText)
   \<and> highlightWords searchText =
       take 3 (filter (\<lambda>word. 3 < length word) (splitWs (replacePunct (toLowerCase searchText))))
   \<and> length (highlightWords searchText) \<le> 3
   \<and> (\<forall>w \<in> set (highlightWords searchText).
         3 < length w \<and> (\<forall>c \<in> set w. isLower c \<or> isDigit c \<or> c = CHR ''_''))
   \<and> generateHighlightURL ''doc.pdf'' 4 ''Patients must be between 18 and 65 years old''
       = ''doc.pdf#page=4&search=patients%20must%20between''"
proof (intro conjI)
  have "\<forall>w \<in> set (highlightWords searchText). \<forall>c \<in> set w. isUnreserved c"
    using highlightWords_chars by (auto simp: isUnreserved_def)
  then show "generateHighlightURL pdfUrl pageNum searchText =
     pdfUrl @ ''#page='' @ showInt pageNum @ ''&search='' @ joinWith ''%20'' (highlightWords searchText)"
    unfolding generateHighlightURL_def by (simp add: encodeURIComponent_join)
  show "highlightWords searchText =
       take 3 (filter (\<lambda>word. 3 < length word) (splitWs (replacePunct (toLowerCase searchText))))"
    by (simp add: highlightWords_def)
  show "length (highlightWords searchText) \<le> 3"
    by (simp add: highlightWords_def)
  show "\<forall>w \<in> set (highlightWords searchText).
         3 < length w \<and> (\<forall>c \<in> set w. isLower c \<or> isDigit c \<or> c = CHR ''_'')"
    using highlightWords_long highlightWords_chars by blast
  show "generateHighlightURL ''doc.pdf'' 4 ''Patients must be between 18 and 65 years old''
       = ''doc.pdf#page=4&search=patients%20must%20between''"
    by code_simp
qed

theorem generateHighlightURL_words_witness:
  "highlightWords ''Patients must be between 18 and 65 years old''
     = [''patients'', ''must'', ''between'']
   \<and> list_all (\<lambda>w. 3 < length w \<and> list_all (\<lambda>c. isLower c \<or> isDigit c \<or> c = CHR ''_'') w)
        (highlightWords ''Patients must be between 18 and 65 years old'')"
proof
  show "highlightWords ''Patients must be between 18 and 65 years old''
     = [''patients'', ''must'', ''between'']"
    by code_simp
  show "list_all (\<lambda>w. 3 < length w \<and> list_all (\<lambda>c. isLower c \<or> isDigit c \<or> c = CHR ''_'') w)
        (highlightWords ''Patients must be between 18 and 65 years old'')"
    unfolding list_all_iff
    using generateHighlightURL_words [of "''doc.pdf''" 4 "''Patients must be between 18 and 65 years old''"]
    by (elim conjE)
qed

section \<open>Properties of the keyword fallback\<close>

lemma foldl_matchWord_score:
  "matchScore (foldl (matchWord content) st ws) =
     matchScore st + length (filter (\<lambda>w. indexOf (toLowerCase content) w \<noteq> None) ws)"
  by (induction ws arbitrary: st) (auto simp: matchWord_def Let_def split: option.splits)

lemma fallbackSource_relevance:
  "relevance (fallbackSource qs pt) =
     relevanceOf (length (filter (\<lambda>w. indexOf (toLowerCase (pt_content pt)) w \<noteq> None) qs)) (length qs)"
  by (simp add: fallbackSource_def Let_def foldl_matchWord_score)

lemma seven_tenths: "((of_nat n :: rat) * (7 / 10) \<le> of_nat m) = (7 * n \<le> 10 * m)"
proof -
  have "((of_nat n :: rat) * (7 / 10) \<le> of_nat m) = ((of_nat (7 * n) :: rat) \<le> of_nat (10 * m))"
    by (simp add: field_simps)
  then show ?thesis by (simp only: of_nat_le_iff)
qed

lemma three_tenths: "((of_nat n :: rat) * (3 / 10) \<le> of_nat m) = (3 * n \<le> 10 * m)"
proof -
  have "((of_nat n :: rat) * (3 / 10) \<le> of_nat m) = ((of_nat (3 * n) :: rat) \<le> of_nat (10 * m))"
    by (simp add: field_simps)
  then show ?thesis by (simp only: of_nat_le_iff)
qed

lemma relevanceOf_cases:
  "relevanceOf m n =
     (if 7 * n \<le> 10 * m then High else if 3 * n \<le> 10 * m then Medium else Low)"
  unfolding relevanceOf_def by (simp only: seven_tenths three_tenths)

text \<open>
  C5, the claim as worded. For the question \<open>what is the enrollment age limit\<close> and the
  page \<open>Patients must be between 18 and 65 years old to enroll\<close> the keyword fallback
  classifies the citation as low: the page contains none of the query words.
\<close>

theorem createIntelligentFallback_enrollment_low:
  "map relevance (sources (createIntelligentFallback ''what is the enrollment age limit'' []
      [\<lparr>pt_page = 1, pt_content = ''Patients must be between 18 and 65 years old to enroll''\<rparr>]))
     = [Low]
   \<and> map (indexOf (toLowerCase ''Patients must be between 18 and 65 years old to enroll''))
       (queryWordsOf ''what is the enrollment age limit'') = [None, None, None]"
  by code_simp

text \<open>
  C5, amended. The keyword fallback gives one citation per page; its relevance is high
  when the number of query words (the words of the lowercased question longer than 3
  characters) that occur as substrings of the lowercased page is at least 0.7 times the
  number of query words, medium when it is at least 0.3 times, and low otherwise. The
  query words of \<open>what is the enrollment age limit\<close> are \<open>what\<close>, \<open>enrollment\<close> and
  \<open>limit\<close>, none occurs in \<open>Patients must be between 18 and 65 years old to enroll\<close>, and
  that page is classified as low.
\<close>

theorem createIntelligentFallback_relevance:
  "map relevance (sources (createIntelligentFallback q r pts)) =
     map (\<lambda>pt. relevanceOf
            (length (filter (\<lambda>w. indexOf (toLowerCase (pt_content pt)) w \<noteq> None) (queryWordsOf q)))
            (length (queryWordsOf q))) pts
   \<and> (relevanceOf m n = High \<longleftrightarrow> 7 * n \<le> 10 * m)
   \<and> (relevanceOf m n = Medium \<longleftrightarrow> 10 * m < 7 * n \<and> 3 * n \<le> 10 * m)
   \<and> (relevanceOf m n = Low \<longleftrightarrow> 10 * m < 3 * n)
   \<and> queryWordsOf ''what is the enrollment age limit'' = [''what'', ''enrollment'', ''limit'']
   \<and> map relevance (sources (createIntelligentFallback ''what is the enrollment age limit'' []
        [\<lparr>pt_page = 1, pt_content = ''Patients must be between 18 and 65 years old to enroll''\<rparr>]))
       = [Low]"
proof (intro conjI)
  show "map relevance (sources (createIntelligentFallback q r pts)) =
     map (\<lambda>pt. relevanceOf
            (length (filter (\<lambda>w. indexOf (toLowerCase (pt_content pt)) w \<noteq> None) (queryWordsOf q)))
            (length (queryWordsOf q))) pts"
    by (simp add: createIntelligentFallback_def Let_def fallbackSource_relevance)
  show "relevanceOf m n = High \<longleftrightarrow> 7 * n \<le> 10 * m"
    by (simp add: relevanceOf_cases)
  show "relevanceOf m n = Medium \<longleftrightarrow> 10 * m < 7 * n \<and> 3 * n \<le> 10 * m"
    by (auto simp: relevanceOf_cases)
  show "relevanceOf m n = Low \<longleftrightarrow> 10 * m < 3 * n"
    by (auto simp: relevanceOf_cases)
  show "queryWordsOf ''what is the enrollment age limit'' = [''what'', ''enrollment'', ''limit'']"
    by code_simp
  show "map relevance (sources (createIntelligentFallback ''what is the enrollment age limit'' []
        [\<lparr>pt_page = 1, pt_content = ''Patients must be between 18 and 65 years old to enroll''\<rparr>]))
       = [Low]"
    by code_simp
qed

section \<open>Properties of the sources panel\<close>

lemma insertSorted_mset: "mset (insertSorted cmp x xs) = add_mset x (mset xs)"
  by (induction xs) simp_all

lemma sortWith_mset: "mset (sortWith cmp xs) = mset xs"
  by (induction xs) (simp_all add: insertSorted_mset)

lemma insertSorted_set: "set (insertSorted cmp x xs) = insert x (set xs)"
  by (induction xs) auto

lemma insertSorted_sorted:
  assumes total: "\<And>a b. \<not> cmp a b \<le> 0 \<Longrightarrow> cmp b a \<le> 0"
    and trans: "\<And>a b c. cmp a b \<le> 0 \<Longrightarrow> cmp b c \<le> 0 \<Longrightarrow> cmp a c \<le> 0"
  shows "sorted_wrt (\<lambda>a b. cmp a b \<le> 0) xs \<Longrightarrow> sorted_wrt (\<lambda>a b. cmp a b \<le> (0::int)) (insertSorted cmp x xs)"
proof (induction xs)
  case Nil
  then show ?case by simp
next
  case (Cons y ys)
  show ?case
  proof (cases "cmp x y \<le> 0")
    case True
    with Cons.prems trans have "\<forall>z \<in> set ys. cmp x z \<le> 0" by auto
    with True Cons.prems show ?thesis by simp
  next
    case False
    then have "cmp y x \<le> 0" by (rule total)
    with False Cons show ?thesis by (auto simp: insertSorted_set)
  qed
qed

lemma sortWith_sorted:
  assumes total: "\<And>a b. \<not> cmp a b \<le> 0 \<Longrightarrow> cmp b a \<le> 0"
    and trans: "\<And>a b c. cmp a b \<le> 0 \<Longrightarrow> cmp b c \<le> 0 \<Longrightarrow> cmp a c \<le> 0"
  shows "sorted_wrt (\<lambda>a b. cmp a b \<le> (0::int)) (sortWith cmp xs)"
  by (induction xs) (simp_all add: insertSorted_sorted [OF total trans])

lemma relevanceOrder_inj: "relevanceOrder r1 = relevanceOrder r2 \<longleftrightarrow> r1 = r2"
  by (cases r1; cases r2) (simp_all add: relevanceOrder_def)

lemma compareSources_le:
  "compareSources a b \<le> 0 \<longleftrightarrow>
     relevanceOrder (effectiveRelevance b) < relevanceOrder (effectiveRelevance a)
     \<or> (effectiveRelevance a = effectiveRelevance b \<and> srcPage a \<le> srcPage b)"
proof -
  show ?thesis
    unfolding compareSources_def relevanceRank_def
    using relevanceOrder_inj [of "effectiveRelevance a" "effectiveRelevance b"]
    by auto
qed

lemma compareSources_total: "\<not> compareSources a b \<le> 0 \<Longrightarrow> compareSources b a \<le> 0"
  unfolding compareSources_le by (auto simp: relevanceOrder_inj not_less order_le_less)

lemma compareSources_trans:
  "compareSources a b \<le> 0 \<Longrightarrow> compareSources b c \<le> 0 \<Longrightarrow> compareSources a c \<le> 0"
  unfolding compareSources_le by auto

text \<open>
  C6, amended. The sources panel orders the citations it is given by relevance
  descending (high, medium, low; a citation without relevance counts as medium) and by
  ascending page number within one relevance, keeping every citation; citations at pages
  5 (medium), 2 (high), 9 (high), 3 (low) come out as 2 (high), 9 (high), 5 (medium),
  3 (low).
\<close>

theorem sortedSources_ranked:
  "spec_ranked (map (\<lambda>s. (effectiveRelevance s, srcPage s)) (sortedSources srcs))
   \<and> mset (sortedSources srcs) = mset srcs
   \<and> map (\<lambda>s. (srcPage s, srcRelevance s)) (sortedSources rankingExample)
      = [(2, Some High), (9, Some High), (5, Some Medium), (3, Some Low)]"
proof (intro conjI)
  have "sorted_wrt (\<lambda>a b. compareSources a b \<le> 0) (sortedSources srcs)"
    unfolding sortedSources_def
    by (rule sortWith_sorted) (erule compareSources_total, erule compareSources_trans)
  then show "spec_ranked (map (\<lambda>s. (effectiveRelevance s, srcPage s)) (sortedSources srcs))"
    unfolding spec_ranked_def sorted_wrt_map by (simp add: compareSources_le)
  show "mset (sortedSources srcs) = mset srcs"
    by (simp add: sortedSources_def sortWith_mset)
  show "map (\<lambda>s. (srcPage s, srcRelevance s)) (sortedSources rankingExample)
      = [(2, Some High), (9, Some High), (5, Some Medium), (3, Some Low)]"
    by code_simp
qed

section \<open>Properties of the PDF text extractor\<close>

lemma extractLoop_pages:
  "extractLoop pdf ns = Inr ps \<Longrightarrow>
   map pageNumber ps = filter (\<lambda>n. 1 \<le> n \<and> n \<le> numPages pdf) ns"
proof (induction ns arbitrary: ps)
  case Nil
  then show ?case by simp
next
  case (Cons n ns)
  show ?case
  proof (cases "n < 1 \<or> n > numPages pdf")
    case True
    with Cons show ?thesis by auto
  next
    case False
    with Cons.prems obtain t rest where
      "pageTextOf pdf n = Inr t" "extractLoop pdf ns = Inr rest"
      "ps = \<lparr>pageNumber = n, pageText = t\<rparr> # rest"
      by (auto split: sum.splits)
    with Cons.IH False show ?thesis by auto
  qed
qed

lemma extractLoop_returns:
  "(\<forall>n \<in> set ns. 1 \<le> n \<and> n \<le> numPages pdf \<longrightarrow> (\<exists>t. pageTextOf pdf n = Inr t)) \<Longrightarrow>
   \<exists>ps. extractLoop pdf ns = Inr ps"
  by (induction ns) auto

lemma extractTextFromPages_cache: "fst (extractTextFromPages w c d ns) = c"
  unfolding extractTextFromPages_def
  by (auto simp: Let_def split: option.splits prod.splits)

lemma fallbackPDFExtraction_pages: "map pt_page (fallbackPDFExtraction u ns) = ns"
  by (simp add: fallbackPDFExtraction_def comp_def)

lemma extractRealPDFText_pages: "map pt_page (snd (extractRealPDFText w u ns)) = ns"
  unfolding extractRealPDFText_def
  by (auto simp: Let_def comp_def fallbackPDFExtraction_pages split: sum.splits)

lemma extractRealPDFText_pagesD:
  "extractRealPDFText w u ns = (evs, pts) \<Longrightarrow> map pt_page pts = ns"
  using extractRealPDFText_pages [of w u ns] by simp

lemma extractTextFromPages_miss:
  assumes "c (doc_id d) = None" "extractViaPDFjs w d ns = (evs1, r1)"
    and "r1 = Inr [] \<or> (\<exists>e. r1 = Inl e)"
  shows "map pt_page (snd (snd (extractTextFromPages w c d ns))) = ns"
  using assms
  by (auto simp: extractTextFromPages_def fallbackPDFExtraction_pages
           split: option.splits prod.splits dest: extractRealPDFText_pagesD)

lemma extractViaPDFjs_source:
  assumes "snd (extractViaPDFjs w d ns) = Inr pts"
  shows "\<exists>u pdf. orElse (doc_url d) (doc_file_url d) = Some u \<and> getDocument w u = Inr pdf
           \<and> map pt_page pts = filter (\<lambda>n. 1 \<le> n \<and> n \<le> numPages pdf) ns"
proof -
  from assms obtain u evs ps where url: "orElse (doc_url d) (doc_file_url d) = Some u"
      and u: "extractPages w u ns = (evs, Inr ps)"
      and pts: "pts = map (\<lambda>p. \<lparr>pt_page = pageNumber p, pt_content = pageText p\<rparr>) ps"
    by (auto simp: extractViaPDFjs_def split: option.splits if_splits prod.splits sum.splits)
  from u obtain pdf where pdf: "getDocument w u = Inr pdf" and loop: "extractLoop pdf ns = Inr ps"
    by (auto simp: extractPages_def split: sum.splits)
  from pts have "map pt_page pts = map pageNumber ps" by (simp add: comp_def)
  with extractLoop_pages [OF loop] pdf url show ?thesis by auto
qed

lemma extractTextFromPages_hit:
  "c (doc_id d) \<noteq> None \<Longrightarrow> map pt_page (snd (snd (extractTextFromPages w c d ns))) = ns"
  by (auto simp: extractTextFromPages_def comp_def)

lemma extractTextFromPages_pdfjs:
  assumes "c (doc_id d) = None" "snd (extractViaPDFjs w d ns) = Inr pts" "pts \<noteq> []"
  shows "snd (snd (extractTextFromPages w c d ns)) = pts"
  using assms by (cases "extractViaPDFjs w d ns") (simp add: extractTextFromPages_def)

lemma extractTextFromPages_fallback:
  assumes "c (doc_id d) = None"
    and "snd (extractViaPDFjs w d ns) = Inr [] \<or> (\<exists>e. snd (extractViaPDFjs w d ns) = Inl e)"
  shows "map pt_page (snd (snd (extractTextFromPages w c d ns))) = ns"
  using assms by (cases "extractViaPDFjs w d ns") (auto intro: extractTextFromPages_miss)

text \<open>
  C2, the claim as worded. For a document of 3 pages and the request for page 7,
  \<^verbatim>\<open>extractTextFromPages\<close> returns an entry for page 7: PDF.js skips the page and gives
  nothing, so the next strategy answers, and it answers every requested page (here
  \<^verbatim>\<open>pdf-parse\<close>, and the placeholder when the network is down).
\<close>

theorem extractTextFromPages_out_of_range:
  "numPages threePageDocument = 3
   \<and> snd (snd (extractTextFromPages (onlineWorld threePageDocument) Map.empty exampleDocument [7]))
       = [\<lparr>pt_page = 7, pt_content = ''Page 7 content not available''\<rparr>]
   \<and> snd (snd (extractTextFromPages offlineWorld Map.empty exampleDocument [7]))
       = [\<lparr>pt_page = 7, pt_content = fallbackContent 7\<rparr>]"
  by code_simp

text \<open>
  C2, amended. \<^verbatim>\<open>PDFExtractionService.extractPages\<close> on a document with \<open>P\<close> pages
  returns exactly the requested pages that lie in \<open>[1, P]\<close>, in the order of the
  request: a page outside is skipped and raises nothing, and the call returns whenever
  the pages inside can be read. \<^verbatim>\<open>extractTextFromPages\<close> returns those pages of the
  document at its URL when the cache has no entry and PDF.js gives at least one page. On
  a cache hit, and when PDF.js fails or gives no page (so that \<^verbatim>\<open>pdf-parse\<close> or the
  placeholder answers), it returns one entry for every requested page, in range or not.
\<close>

theorem extractPages_in_range:
  "(getDocument w pdfUrl = Inr pdf \<longrightarrow>
      (\<forall>ps. snd (extractPages w pdfUrl ns) = Inr ps \<longrightarrow>
            map pageNumber ps = filter (\<lambda>n. 1 \<le> n \<and> n \<le> numPages pdf) ns
            \<and> (\<forall>p \<in> set ps. 1 \<le> pageNumber p \<and> pageNumber p \<le> numPages pdf))
       \<and> ((\<forall>n \<in> set ns. 1 \<le> n \<and> n \<le> numPages pdf \<longrightarrow> (\<exists>t. pageTextOf pdf n = Inr t)) \<longrightarrow>
            (\<exists>ps. snd (extractPages w pdfUrl ns) = Inr ps)))
   \<and> (textCache (doc_id document) = None
        \<and> snd (extractViaPDFjs w document ns) = Inr pts \<and> pts \<noteq> [] \<longrightarrow>
          snd (snd (extractTextFromPages w textCache document ns)) = pts
          \<and> (\<exists>u pdf'. orElse (doc_url document) (doc_file_url document) = Some u
                \<and> getDocument w u = Inr pdf'
                \<and> map pt_page pts = filter (\<lambda>n. 1 \<le> n \<and> n \<le> numPages pdf') ns))
   \<and> (textCache (doc_id document) \<noteq> None \<longrightarrow>
          map pt_page (snd (snd (extractTextFromPages w textCache document ns))) = ns)
   \<and> (textCache (doc_id document) = None
        \<and> (snd (extractViaPDFjs w document ns) = Inr []
            \<or> (\<exists>e. snd (extractViaPDFjs w document ns) = Inl e)) \<longrightarrow>
          map pt_page (snd (snd (extractTextFromPages w textCache document ns))) = ns)"
proof (intro conjI impI allI)
  fix ps assume g: "getDocument w pdfUrl = Inr pdf" and "snd (extractPages w pdfUrl ns) = Inr ps"
  then have loop: "extractLoop pdf ns = Inr ps"
    by (auto simp: extractPages_def split: sum.splits)
  then show m: "map pageNumber ps = filter (\<lambda>n. 1 \<le> n \<and> n \<le> numPages pdf) ns"
    by (rule extractLoop_pages)
  show "\<forall>p \<in> set ps. 1 \<le> pageNumber p \<and> pageNumber p \<le> numPages pdf"
  proof
    fix p assume "p \<in> set ps"
    then have "pageNumber p \<in> set (map pageNumber ps)" by simp
    with m show "1 \<le> pageNumber p \<and> pageNumber p \<le> numPages pdf" by simp
  qed
next
  assume g: "getDocument w pdfUrl = Inr pdf"
    and "\<forall>n \<in> set ns. 1 \<le> n \<and> n \<le> numPages pdf \<longrightarrow> (\<exists>t. pageTextOf pdf n = Inr t)"
  then obtain ps where "extractLoop pdf ns = Inr ps"
    using extractLoop_returns by blast
  with g show "\<exists>ps. snd (extractPages w pdfUrl ns) = Inr ps"
    by (simp add: extractPages_def)
next
  assume h: "textCache (doc_id document) = None
        \<and> snd (extractViaPDFjs w document ns) = Inr pts \<and> pts \<noteq> []"
  then show "snd (snd (extractTextFromPages w textCache document ns)) = pts"
    by (simp add: extractTextFromPages_pdfjs)
  from h show "\<exists>u pdf'. orElse (doc_url document) (doc_file_url document) = Some u
                \<and> getDocument w u = Inr pdf'
                \<and> map pt_page pts = filter (\<lambda>n. 1 \<le> n \<and> n \<le> numPages pdf') ns"
    by (intro extractViaPDFjs_source) simp
next
  assume "textCache (doc_id document) \<noteq> None"
  then show "map pt_page (snd (snd (extractTextFromPages w textCache document ns))) = ns"
    by (rule extractTextFromPages_hit)
next
  assume "textCache (doc_id document) = None
        \<and> (snd (extractViaPDFjs w document ns) = Inr []
            \<or> (\<exists>e. snd (extractViaPDFjs w document ns) = Inl e))"
  then show "map pt_page (snd (snd (extractTextFromPages w textCache document ns))) = ns"
    by (intro extractTextFromPages_fallback) simp_all
qed

theorem extractPages_in_range_witness:
  "map pageNumber (projr (snd (extractPages (onlineWorld threePageDocument) ''doc.pdf'' [0, 1, 3, 4, 7])))
     = [1, 3]
   \<and> list_all (\<lambda>p. 1 \<le> pageNumber p \<and> pageNumber p \<le> 3)
       (projr (snd (extractPages (onlineWorld threePageDocument) ''doc.pdf'' [0, 1, 3, 4, 7])))
   \<and> map pt_page (snd (snd (extractTextFromPages (onlineWorld threePageDocument) Map.empty
        exampleDocument [0, 1, 3, 4, 7]))) = [1, 3]
   \<and> map pt_page (snd (snd (extractTextFromPages (onlineWorld threePageDocument)
        [''d1'' \<mapsto> [''cached text'']] exampleDocument [0, 1, 5]))) = [0, 1, 5]
   \<and> map pt_page (snd (snd (extractTextFromPages (onlineWorld threePageDocument) Map.empty
        exampleDocument [5, 9]))) = [5, 9]
   \<and> map pt_page (snd (snd (extractTextFromPages offlineWorld Map.empty
        exampleDocument [2, 8]))) = [2, 8]"
proof (intro conjI)
  let ?w = "onlineWorld threePageDocument"
  have g: "getDocument ?w ''doc.pdf'' = Inr threePageDocument"
    by (simp add: onlineWorld_def)
  have n: "numPages threePageDocument = 3"
    by (simp add: threePageDocument_def)
  have "\<forall>n \<in> set [0, 1, 3, 4, 7]. 1 \<le> n \<and> n \<le> numPages threePageDocument \<longrightarrow>
          (\<exists>t. pageTextOf threePageDocument n = Inr t)"
    by (simp add: threePageDocument_def)
  with extractPages_in_range [of ?w "''doc.pdf''" threePageDocument "[0, 1, 3, 4, 7]"] g
  obtain ps where ps: "snd (extractPages ?w ''doc.pdf'' [0, 1, 3, 4, 7]) = Inr ps"
    by blast
  with extractPages_in_range [of ?w "''doc.pdf''" threePageDocument "[0, 1, 3, 4, 7]"] g
  have m: "map pageNumber ps = filter (\<lambda>n. 1 \<le> n \<and> n \<le> numPages threePageDocument) [0, 1, 3, 4, 7]"
    and r: "\<forall>p \<in> set ps. 1 \<le> pageNumber p \<and> pageNumber p \<le> numPages threePageDocument"
    by blast+
  from m ps n show "map pageNumber (projr (snd (extractPages ?w ''doc.pdf'' [0, 1, 3, 4, 7]))) = [1, 3]"
    by simp
  from r ps n show "list_all (\<lambda>p. 1 \<le> pageNumber p \<and> pageNumber p \<le> 3)
       (projr (snd (extractPages ?w ''doc.pdf'' [0, 1, 3, 4, 7])))"
    by (simp add: list_all_iff)
  let ?pts = "[\<lparr>pt_page = 1, pt_content = ''text of page 1''\<rparr>,
               \<lparr>pt_page = 3, pt_content = ''text of page 3''\<rparr>]"
  have miss: "Map.empty (doc_id exampleDocument) = (None :: string list option)" by simp
  have v: "snd (extractViaPDFjs ?w exampleDocument [0, 1, 3, 4, 7]) = Inr ?pts"
    by code_simp
  from extractPages_in_range
    [where textCache = Map.empty and document = exampleDocument and w = ?w
       and ns = "[0, 1, 3, 4, 7]" and pts = ?pts] miss v
  have "snd (snd (extractTextFromPages ?w Map.empty exampleDocument [0, 1, 3, 4, 7])) = ?pts"
    by simp
  then show "map pt_page (snd (snd (extractTextFromPages ?w Map.empty
        exampleDocument [0, 1, 3, 4, 7]))) = [1, 3]"
    by simp
  have hit: "[''d1'' \<mapsto> [''cached text'']] (doc_id exampleDocument) \<noteq> None"
    by (simp add: exampleDocument_def)
  from extractPages_in_range
    [where textCache = "[''d1'' \<mapsto> [''cached text'']]" and document = exampleDocument
       and w = ?w and ns = "[0, 1, 5]"] hit
  show "map pt_page (snd (snd (extractTextFromPages ?w
        [''d1'' \<mapsto> [''cached text'']] exampleDocument [0, 1, 5]))) = [0, 1, 5]"
    by blast
  have v2: "snd (extractViaPDFjs ?w exampleDocument [5, 9]) = Inr []"
    by code_simp
  from extractPages_in_range
    [where textCache = Map.empty and document = exampleDocument and w = ?w and ns = "[5, 9]"]
    miss v2
  show "map pt_page (snd (snd (extractTextFromPages ?w Map.empty exampleDocument [5, 9]))) = [5, 9]"
    by blast
  have v3: "snd (extractViaPDFjs offlineWorld exampleDocument [2, 8])
              = Inl (Error ''PDF extraction failed: Failed to fetch'')"
    by code_simp
  from extractPages_in_range
    [where textCache = Map.empty and document = exampleDocument and w = offlineWorld
       and ns = "[2, 8]"] miss v3
  show "map pt_page (snd (snd (extractTextFromPages offlineWorld Map.empty
        exampleDocument [2, 8]))) = [2, 8]"
    by blast
qed


text \<open>
  C3. No call of \<^verbatim>\<open>extractTextFromPages\<close> changes the cache. Two calls in a row,
  starting from the empty cache: after the first call the cache has no entry for the
  document, the second call loads the document
  from the network again, and with the network down it returns the placeholder instead
  of the text returned before.
\<close>

theorem extractTextFromPages_second_call_fetches:
  "fst (extractTextFromPages w textCache document pageNumbers) = textCache
   \<and> fst (extractTextFromPages (onlineWorld threePageDocument) Map.empty exampleDocument [1])
     (doc_id exampleDocument) = None
   \<and> fst (snd (extractTextFromPages (onlineWorld threePageDocument)
        (fst (extractTextFromPages (onlineWorld threePageDocument) Map.empty exampleDocument [1]))
        exampleDocument [1])) = [GetDocument ''doc.pdf'']
   \<and> snd (snd (extractTextFromPages (onlineWorld threePageDocument) Map.empty exampleDocument [1]))
       = [\<lparr>pt_page = 1, pt_content = ''text of page 1''\<rparr>]
   \<and> snd (extractTextFromPages offlineWorld
        (fst (extractTextFromPages (onlineWorld threePageDocument) Map.empty exampleDocument [1]))
        exampleDocument [1])
       = ([GetDocument ''doc.pdf'', Fetch ''doc.pdf''], [\<lparr>pt_page = 1, pt_content = fallbackContent 1\<rparr>])"
proof (intro conjI)
  show "fst (extractTextFromPages w textCache document pageNumbers) = textCache"
    by (rule extractTextFromPages_cache)
qed code_simp+


section \<open>Properties of the citation pipeline\<close>

text \<open>
  C4, the claim as worded. An OpenAI reply with no sources and confidence 0.95 goes
  through \<^verbatim>\<open>extractSources\<close> unchanged, and the keyword fallback on no page text gives
  no sources with confidence 0.3: an empty citation list with a confidence other than 0.
\<close>

theorem extractSources_empty_nonzero_confidence:
  "map_option (\<lambda>(c, evs, r). (sources r, confidence r))
      (extractSources emptyAnswerWorld Map.empty ''dosage schedule'' ''See [P1]''
         exampleDocument None)
     = Some ([], 19 / 20)
   \<and> createIntelligentFallback ''dosage schedule'' ''See [P1]'' []
       = \<lparr>sources = [], confidence = 3 / 10\<rparr>"
  by code_simp

text \<open>
  C4, amended. When no page reference is found (the provider gave none and the answer
  has no marker), \<^verbatim>\<open>extractSources\<close> returns the empty result with confidence 0,
  without touching the network. A result of the keyword fallback without sources comes
  from an empty list of page texts and has confidence 0.3. A reply of the OpenAI client
  whose citations all have their \<^verbatim>\<open>exactText\<close> is returned with the confidence and the
  number of citations of the reply, also when it has no citation; a reply with a
  citation that lacks \<^verbatim>\<open>exactText\<close> is answered by the empty result with confidence 0.
\<close>

theorem extractSources_no_references:
  "((chatPDFReferences = None \<or> chatPDFReferences = Some [])
      \<and> parsePageReferences chatPDFResponse = []
     \<longrightarrow> extractSources w textCache originalQuery chatPDFResponse document chatPDFReferences
           = Some (textCache, [], \<lparr>sources = [], confidence = 0\<rparr>))
   \<and> (sources (createIntelligentFallback q r pts) = [] \<longrightarrow>
         pts = [] \<and> confidence (createIntelligentFallback q r pts) = 3 / 10)
   \<and> (pageNumbersOf chatPDFReferences chatPDFResponse \<noteq> []
        \<and> expandedPagesOf (pageNumbersOf chatPDFReferences chatPDFResponse) = Some expandedPages
        \<and> extractTextFromPages w textCache document expandedPages = (textCache', evs, pageTexts)
        \<and> openai w = Some ask
        \<and> ask originalQuery chatPDFResponse pageTexts = Inr reply
     \<longrightarrow> (\<exists>result.
           extractSources w textCache originalQuery chatPDFResponse document chatPDFReferences
             = Some (textCache', evs, result)
           \<and> (if list_ex (\<lambda>source. exactText source = None) (sources reply)
              then result = \<lparr>sources = [], confidence = 0\<rparr>
              else confidence result = confidence reply
                   \<and> length (sources result) = length (sources reply))))"
proof (intro conjI impI)
  assume "(chatPDFReferences = None \<or> chatPDFReferences = Some [])
      \<and> parsePageReferences chatPDFResponse = []"
  then show "extractSources w textCache originalQuery chatPDFResponse document chatPDFReferences
           = Some (textCache, [], \<lparr>sources = [], confidence = 0\<rparr>)"
    by (auto simp: extractSources_def pageNumbersOf_def)
next
  assume "sources (createIntelligentFallback q r pts) = []"
  then show "pts = []" "confidence (createIntelligentFallback q r pts) = 3 / 10"
    by (auto simp: createIntelligentFallback_def Let_def)
next
  assume h: "pageNumbersOf chatPDFReferences chatPDFResponse \<noteq> []
        \<and> expandedPagesOf (pageNumbersOf chatPDFReferences chatPDFResponse) = Some expandedPages
        \<and> extractTextFromPages w textCache document expandedPages = (textCache', evs, pageTexts)
        \<and> openai w = Some ask
        \<and> ask originalQuery chatPDFResponse pageTexts = Inr reply"
  then have "findExactSources w originalQuery chatPDFResponse pageTexts = reply"
    by (simp add: findExactSources_def tryClient_def)
  with h show "\<exists>result.
           extractSources w textCache originalQuery chatPDFResponse document chatPDFReferences
             = Some (textCache', evs, result)
           \<and> (if list_ex (\<lambda>source. exactText source = None) (sources reply)
              then result = \<lparr>sources = [], confidence = 0\<rparr>
              else confidence result = confidence reply
                   \<and> length (sources result) = length (sources reply))"
    by (auto simp: extractSources_def Let_def split: option.splits)
qed

theorem extractSources_no_references_witness:
  "map_option (\<lambda>(c, evs, r). (evs, r))
      (extractSources (onlineWorld twoPageDocument) Map.empty ''dosage schedule''
         ''The answer cites no page.'' exampleDocument None)
     = Some ([], \<lparr>sources = [], confidence = 0\<rparr>)
   \<and> confidence (createIntelligentFallback ''dosage schedule'' ''See [P1]'' []) = 3 / 10
   \<and> map_option (\<lambda>(c, evs, r). (length (sources r), confidence r))
        (extractSources
           (replyWorld \<lparr>sources = [quotedCitation (Some ''schedule is weekly'')], confidence = 9 / 10\<rparr>)
           Map.empty ''dosage schedule'' ''See [P1]'' exampleDocument None)
       = Some (1, 9 / 10)
   \<and> map_option (\<lambda>(c, evs, r). r)
        (extractSources
           (replyWorld \<lparr>sources = [quotedCitation None], confidence = 9 / 10\<rparr>)
           Map.empty ''dosage schedule'' ''See [P1]'' exampleDocument None)
       = Some \<lparr>sources = [], confidence = 0\<rparr>"
proof (intro conjI)
  have "parsePageReferences ''The answer cites no page.'' = []" by code_simp
  with extractSources_no_references
    [of None "''The answer cites no page.''" "onlineWorld twoPageDocument" Map.empty
        "''dosage schedule''" exampleDocument]
  show "map_option (\<lambda>(c, evs, r). (evs, r))
      (extractSources (onlineWorld twoPageDocument) Map.empty ''dosage schedule''
         ''The answer cites no page.'' exampleDocument None)
     = Some ([], \<lparr>sources = [], confidence = 0\<rparr>)"
    by simp
  have "sources (createIntelligentFallback ''dosage schedule'' ''See [P1]'' []) = []"
    by (simp add: createIntelligentFallback_def)
  with extractSources_no_references
    [where q = "''dosage schedule''" and r = "''See [P1]''" and pts = "[]"]
  show "confidence (createIntelligentFallback ''dosage schedule'' ''See [P1]'' []) = 3 / 10"
    by blast
  have pn: "pageNumbersOf None ''See [P1]'' = [Finite 1]" by code_simp
  have ex: "expandedPagesOf [Finite 1] = Some [1, 2]" by code_simp
  have pass: "\<exists>c' evs result.
           extractSources (replyWorld reply) Map.empty ''dosage schedule'' ''See [P1]''
             exampleDocument None = Some (c', evs, result)
           \<and> (if list_ex (\<lambda>source. exactText source = None) (sources reply)
              then result = \<lparr>sources = [], confidence = 0\<rparr>
              else confidence result = confidence reply
                   \<and> length (sources result) = length (sources reply))" for reply
  proof -
    obtain c' evs pts where t:
      "extractTextFromPages (replyWorld reply) Map.empty exampleDocument [1, 2] = (c', evs, pts)"
      by (cases "extractTextFromPages (replyWorld reply) Map.empty exampleDocument [1, 2]")
    have o: "openai (replyWorld reply) = Some (\<lambda>q r pts. Inr reply)"
      by (simp add: replyWorld_def)
    from extractSources_no_references
      [where chatPDFReferences = None and chatPDFResponse = "''See [P1]''"
         and w = "replyWorld reply" and textCache = Map.empty and document = exampleDocument
         and expandedPages = "[1, 2]" and textCache' = c' and evs = evs and pageTexts = pts
         and ask = "\<lambda>q r pts. Inr reply" and reply = reply
         and originalQuery = "''dosage schedule''"]
      pn ex t o
    have "\<exists>result.
           extractSources (replyWorld reply) Map.empty ''dosage schedule'' ''See [P1]''
             exampleDocument None = Some (c', evs, result)
           \<and> (if list_ex (\<lambda>source. exactText source = None) (sources reply)
              then result = \<lparr>sources = [], confidence = 0\<rparr>
              else confidence result = confidence reply
                   \<and> length (sources result) = length (sources reply))"
      by simp
    then show ?thesis by blast
  qed
  from pass [of "\<lparr>sources = [quotedCitation (Some ''schedule is weekly'')], confidence = 9 / 10\<rparr>"]
  show "map_option (\<lambda>(c, evs, r). (length (sources r), confidence r))
        (extractSources
           (replyWorld \<lparr>sources = [quotedCitation (Some ''schedule is weekly'')], confidence = 9 / 10\<rparr>)
           Map.empty ''dosage schedule'' ''See [P1]'' exampleDocument None)
       = Some (1, 9 / 10)"
    by (auto simp: quotedCitation_def)
  from pass [of "\<lparr>sources = [quotedCitation None], confidence = 9 / 10\<rparr>"]
  show "map_option (\<lambda>(c, evs, r). r)
        (extractSources
           (replyWorld \<lparr>sources = [quotedCitation None], confidence = 9 / 10\<rparr>)
           Map.empty ''dosage schedule'' ''See [P1]'' exampleDocument None)
       = Some \<lparr>sources = [], confidence = 0\<rparr>"
    by (auto simp: quotedCitation_def)
qed

text \<open>
  C6, the claim as worded. For the answer \<open>See [P1]\<close> on a document of two pages and the
  question \<open>dosage schedule\<close>, the keyword fallback cites page 1 as low and page 2 as
  high, and \<^verbatim>\<open>extractSources\<close> hands them over in that order: low before high.
\<close>

theorem extractSources_unsorted:
  "map_option (\<lambda>(c, evs, r). map (\<lambda>s. (relevance s, page s)) (sources r))
      (extractSources (onlineWorld twoPageDocument) Map.empty ''dosage schedule''
         ''See [P1]'' exampleDocument None)
     = Some [(Low, 1), (High, 2)]
   \<and> \<not> spec_ranked [(Low, 1), (High, 2)]"
  by code_simp

section \<open>Properties of the answer service router\<close>

lemma getServiceType_invalid:
  "v \<notin> Some ` set validTypes \<Longrightarrow> getServiceType (w\<lparr>VITE_AI_SERVICE := v\<rparr>) = ''anthropic''"
  by (auto simp: getServiceType_def split: option.splits)

lemma queryBackend_config: "queryBackend (w\<lparr>VITE_AI_SERVICE := v\<rparr>) params = queryBackend w params"
  by (simp add: queryBackend_def Let_def split: sum.splits)

lemma queryChatPDF_config: "queryChatPDF (w\<lparr>VITE_AI_SERVICE := v\<rparr>) params = queryChatPDF w params"
  by (simp add: queryChatPDF_def Let_def split: sum.splits)

lemma queryAnthropic_config: "queryAnthropic (w\<lparr>VITE_AI_SERVICE := v\<rparr>) params = queryAnthropic w params"
  by (simp add: queryAnthropic_def Let_def split: sum.splits)

lemma queryAnthropicMockup_config:
  "queryAnthropicMockup (w\<lparr>VITE_AI_SERVICE := v\<rparr>) params = queryAnthropicMockup w params"
  by (simp add: queryAnthropicMockup_def)

lemma callService_config: "callService (w\<lparr>VITE_AI_SERVICE := v\<rparr>) st params = callService w st params"
  by (simp add: callService_def queryBackend_config queryChatPDF_config queryAnthropic_config
      queryAnthropicMockup_config)

text \<open>
  C1. When the call of the selected service fails and the Anthropic call succeeds, the
  router returns the adapted Anthropic response, and after the calls of the selected
  service it calls Claude once and nothing else: the backend fallback is not tried. When
  the selected service is \<open>anthropic\<close> and fails, there is no second Anthropic call: the
  router goes on to the backend and returns what the backend call gives.
\<close>

theorem query_fallback:
  assumes "serviceType = stringOr overrideService (getServiceType w)"
  shows "(snd (callService w serviceType params) = Inl e \<and> snd (queryAnthropic w params) = Inr r
      \<longrightarrow> query w params overrideService
            = (fst (callService w serviceType params)
                 @ [ClaudeQuery (message params) (claudeDocumentOf params)], Inr r)
          \<and> (\<exists>claudeResult.
                queryDocumentWithCitations w (message params) (claudeDocumentOf params)
                  = Inr claudeResult
                \<and> adaptAnthropicResponse w claudeResult (documentUrlOf params)
                    (input_tokens claudeResult) (output_tokens claudeResult) = Inr r))
    \<and> (serviceType = ''anthropic'' \<and> snd (queryAnthropic w params) = Inl e
      \<longrightarrow> query w params overrideService
            = (fst (queryAnthropic w params) @ fst (queryBackend w params),
               snd (queryBackend w params)))"
proof (intro conjI impI)
  assume h: "snd (callService w serviceType params) = Inl e \<and> snd (queryAnthropic w params) = Inr r"
  then have ne: "serviceType \<noteq> ''anthropic''"
    by (auto simp: callService_def)
  from h have calls:
    "fst (queryAnthropic w params) = [ClaudeQuery (message params) (claudeDocumentOf params)]"
    by (auto simp: queryAnthropic_def split: if_splits)
  from h ne calls assms show "query w params overrideService
            = (fst (callService w serviceType params)
                 @ [ClaudeQuery (message params) (claudeDocumentOf params)], Inr r)"
    by (auto simp: query_def Let_def split: prod.splits sum.splits)
  from h show "\<exists>claudeResult.
                queryDocumentWithCitations w (message params) (claudeDocumentOf params)
                  = Inr claudeResult
                \<and> adaptAnthropicResponse w claudeResult (documentUrlOf params)
                    (input_tokens claudeResult) (output_tokens claudeResult) = Inr r"
    by (auto simp: queryAnthropic_def split: if_splits sum.splits)
next
  assume h: "serviceType = ''anthropic'' \<and> snd (queryAnthropic w params) = Inl e"
  then have "callService w serviceType params = queryAnthropic w params"
    by (simp add: callService_def)
  with h assms show "query w params overrideService
            = (fst (queryAnthropic w params) @ fst (queryBackend w params),
               snd (queryBackend w params))"
    by (auto simp: query_def Let_def split: prod.splits sum.splits)
qed

theorem query_fallback_witness:
  "query (exampleRouter (Some ''chatpdf'') False True) exampleParams None
     = (fst (queryChatPDF (exampleRouter (Some ''chatpdf'') False True) exampleParams)
          @ [ClaudeQuery ''What is the dose?'' (claudeDocumentOf exampleParams)],
        Inr ''anthropic:answer'')
   \<and> query (exampleRouter (Some ''anthropic'') True False) exampleParams None
     = (fst (queryBackend (exampleRouter (Some ''anthropic'') True False) exampleParams),
        Inr ''backend:raw'')"
proof
  let ?w = "exampleRouter (Some ''chatpdf'') False True"
  have st: "''chatpdf'' = stringOr None (getServiceType ?w)" by code_simp
  have cs: "callService ?w ''chatpdf'' exampleParams = queryChatPDF ?w exampleParams"
    by (simp add: callService_def)
  have p: "snd (callService ?w ''chatpdf'' exampleParams) = Inl (Error ''backend down'')"
    by code_simp
  have a: "snd (queryAnthropic ?w exampleParams) = Inr ''anthropic:answer''"
    by code_simp
  have m: "message exampleParams = ''What is the dose?''"
    by (simp add: exampleParams_def)
  from query_fallback [OF st, of exampleParams "Error ''backend down''" "''anthropic:answer''"] p a
  show "query ?w exampleParams None
     = (fst (queryChatPDF ?w exampleParams)
          @ [ClaudeQuery ''What is the dose?'' (claudeDocumentOf exampleParams)],
        Inr ''anthropic:answer'')"
    by (simp add: cs m)
next
  let ?w = "exampleRouter (Some ''anthropic'') True False"
  let ?e = "Error ''Claude Citations service not available - API key missing''"
  have st: "''anthropic'' = stringOr None (getServiceType ?w)" by code_simp
  have a: "queryAnthropic ?w exampleParams = ([], Inl ?e)"
    by (simp add: queryAnthropic_def exampleRouter_def)
  have b: "snd (queryBackend ?w exampleParams) = Inr ''backend:raw''"
    by code_simp
  from query_fallback [OF st, of exampleParams ?e] a b
  show "query ?w exampleParams None
     = (fst (queryBackend ?w exampleParams), Inr ''backend:raw'')"
    by simp
qed

text \<open>
  C9. With a setting outside \<open>backend\<close>, \<open>chatpdf\<close>, \<open>anthropic\<close> and
  \<open>anthropic-mockup\<close>, or with no setting, \<^verbatim>\<open>getServiceType\<close> answers \<open>anthropic\<close>, the
  service called for that type is the Anthropic provider, and \<^verbatim>\<open>query\<close> makes the calls
  and returns the result it does with the setting \<open>anthropic\<close>.
\<close>

theorem query_invalid_setting:
  assumes "v \<notin> Some ` set validTypes"
  shows "getServiceType (w\<lparr>VITE_AI_SERVICE := v\<rparr>) = ''anthropic''
       \<and> callService (w\<lparr>VITE_AI_SERVICE := v\<rparr>) (getServiceType (w\<lparr>VITE_AI_SERVICE := v\<rparr>)) params
           = queryAnthropic w params
       \<and> query (w\<lparr>VITE_AI_SERVICE := v\<rparr>) params overrideService
           = query (w\<lparr>VITE_AI_SERVICE := Some ''anthropic''\<rparr>) params overrideService"
proof (intro conjI)
  show a: "getServiceType (w\<lparr>VITE_AI_SERVICE := v\<rparr>) = ''anthropic''"
    using assms by (rule getServiceType_invalid)
  show "callService (w\<lparr>VITE_AI_SERVICE := v\<rparr>) (getServiceType (w\<lparr>VITE_AI_SERVICE := v\<rparr>)) params
           = queryAnthropic w params"
    unfolding a callService_config by (simp add: callService_def)
  have "getServiceType (w\<lparr>VITE_AI_SERVICE := v\<rparr>)
          = getServiceType (w\<lparr>VITE_AI_SERVICE := Some ''anthropic''\<rparr>)"
    unfolding a by (simp add: getServiceType_def validTypes_def)
  then show "query (w\<lparr>VITE_AI_SERVICE := v\<rparr>) params overrideService
           = query (w\<lparr>VITE_AI_SERVICE := Some ''anthropic''\<rparr>) params overrideService"
    unfolding query_def callService_config queryAnthropic_config queryBackend_config
    by simp
qed

theorem query_invalid_setting_witness:
  "getServiceType (exampleRouter (Some ''openai'') True True) = ''anthropic''
   \<and> getServiceType (exampleRouter None True True) = ''anthropic''
   \<and> callService (exampleRouter (Some ''openai'') True True)
        (getServiceType (exampleRouter (Some ''openai'') True True)) exampleParams
       = ([ClaudeQuery ''What is the dose?'' (claudeDocumentOf exampleParams)],
          Inr ''anthropic:answer'')
   \<and> query (exampleRouter (Some ''openai'') True True) exampleParams None
     = query (exampleRouter (Some ''anthropic'') True True) exampleParams None
   \<and> query (exampleRouter None True True) exampleParams None
     = query (exampleRouter (Some ''anthropic'') True True) exampleParams None
   \<and> query (exampleRouter None True True) exampleParams None
     = ([ClaudeQuery ''What is the dose?'' (claudeDocumentOf exampleParams)],
        Inr ''anthropic:answer'')"
proof (intro conjI)
  have upd: "\<And>v. exampleRouter v True True = (exampleRouter None True True)\<lparr>VITE_AI_SERVICE := v\<rparr>"
    by (simp add: exampleRouter_def)
  have o: "Some ''openai'' \<notin> Some ` set validTypes" by (simp add: validTypes_def)
  have n: "None \<notin> Some ` set validTypes" by simp
  note bad = query_invalid_setting
    [OF o, of "exampleRouter None True True" exampleParams None, unfolded upd [symmetric]]
  note unset = query_invalid_setting
    [OF n, of "exampleRouter None True True" exampleParams None, unfolded upd [symmetric]]
  from bad show "getServiceType (exampleRouter (Some ''openai'') True True) = ''anthropic''"
    by (rule conjunct1)
  from unset show "getServiceType (exampleRouter None True True) = ''anthropic''"
    by (rule conjunct1)
  have qa: "queryAnthropic (exampleRouter None True True) exampleParams
              = ([ClaudeQuery ''What is the dose?'' (claudeDocumentOf exampleParams)],
                 Inr ''anthropic:answer'')"
    by code_simp
  from bad have "callService (exampleRouter (Some ''openai'') True True)
        (getServiceType (exampleRouter (Some ''openai'') True True)) exampleParams
       = queryAnthropic (exampleRouter None True True) exampleParams"
    by (elim conjE)
  then show "callService (exampleRouter (Some ''openai'') True True)
        (getServiceType (exampleRouter (Some ''openai'') True True)) exampleParams
       = ([ClaudeQuery ''What is the dose?'' (claudeDocumentOf exampleParams)],
          Inr ''anthropic:answer'')"
    using qa by (rule trans)
  from bad show "query (exampleRouter (Some ''openai'') True True) exampleParams None
     = query (exampleRouter (Some ''anthropic'') True True) exampleParams None"
    by (elim conjE)
  from unset show "query (exampleRouter None True True) exampleParams None
     = query (exampleRouter (Some ''anthropic'') True True) exampleParams None"
    by (elim conjE)
  show "query (exampleRouter None True True) exampleParams None
     = ([ClaudeQuery ''What is the dose?'' (claudeDocumentOf exampleParams)],
        Inr ''anthropic:answer'')"
    by code_simp
qed


end
